theory Spec2Isabelle
  imports Complex_Main "HOL-Library.Word"
begin

section \<open>Solar position files: the generator script \<open>generate_solar_data.py\<close>\<close>

text \<open>
  The script computes, for a city and a year, the sun's azimuth and apparent elevation at
  one-minute steps and writes them to a binary file: a 16-byte header followed by one
  8-byte record per sample. This theory embeds the two functions that carry the format,
  \<open>compute_solar_positions\<close> and \<open>write_binary\<close>, and the body of the loop of
  \<open>main\<close> that chains them.

  What the script takes from libraries is modelled as follows.
  \<^item> Bytes are \<open>8 word\<close>; a file is the list of its bytes. The file system is a tree
    of directories and regular files with a working directory; a path is resolved
    component by component as Linux does, without symbolic links. \<open>os.path.split\<close>,
    \<open>os.path.dirname\<close> and \<open>os.makedirs\<close> are translated from the standard library
    (\<open>posixpath.py\<close>, \<open>os.py\<close>). Permissions, limits on the length of names and I/O
    failures are not modelled: the process may search and write every directory, and the
    device has room. A file is looked at when the \<open>with\<close> block has been left (normally
    or by an exception), when Python has flushed and closed it.
  \<^item> \<open>struct.pack\<close> with \<open>"<h"\<close> and \<open>"<i"\<close> is written out: a range check, then the
    two's-complement bytes, least significant first.
  \<^item> A float64 is its IEEE 754 bit pattern, a \<open>64 word\<close>; a float32 a \<open>32 word\<close>.
    \<open>astype(np.float32)\<close> is the IEEE conversion, rounding to nearest, ties to even.
  \<^item> \<open>np.float32\<close> is a dtype of the host's byte order, so \<open>tobytes\<close> takes the byte
    order of the host as a parameter.
\<close>

subsection \<open>Bytes and \<open>struct.pack\<close>\<close>

type_synonym byte = "8 word"

text \<open>
  The exceptions: \<open>struct.error\<close>, those of the time zone, the one that the position
  function raises, and those of the file system (the first four of these are subclasses of
  \<open>OSError\<close>, \<open>ValueError\<close> is not).
\<close>

datatype error =
    StructError
  | UnknownTimeZoneError
  | AmbiguousTimeError
  | NonExistentTimeError
  | PositionError string
  | FileNotFoundError
  | NotADirectoryError
  | FileExistsError
  | IsADirectoryError
  | ValueError

text \<open>The byte of \<open>k\<close> at position \<open>i\<close> (0 is the least significant) in two's complement.\<close>

definition byte_at :: "int \<Rightarrow> nat \<Rightarrow> byte" where
  "byte_at k i = word_of_int ((k div 256 ^ i) mod 256)"

text \<open>\<open>struct.pack("<h", v)\<close>: \<open>struct.error\<close> unless \<open>v\<close> is a signed 16-bit value.\<close>

definition pack_h :: "int \<Rightarrow> error + byte list" where
  "pack_h v = (if - 32768 \<le> v \<and> v \<le> 32767 then Inr [byte_at v 0, byte_at v 1]
               else Inl StructError)"

text \<open>\<open>struct.pack("<i", v)\<close>: \<open>struct.error\<close> unless \<open>v\<close> is a signed 32-bit value.\<close>

definition pack_i :: "int \<Rightarrow> error + byte list" where
  "pack_i v = (if - 2147483648 \<le> v \<and> v \<le> 2147483647
               then Inr [byte_at v 0, byte_at v 1, byte_at v 2, byte_at v 3]
               else Inl StructError)"

text \<open>
  How a reader takes the fields back: a little-endian signed integer of two and of four
  bytes, and a little-endian 32-bit pattern.
\<close>

definition le_unsigned :: "byte list \<Rightarrow> int" where
  "le_unsigned bs = foldr (\<lambda>b acc. uint b + 256 * acc) bs 0"

definition le_int16 :: "byte list \<Rightarrow> int" where
  "le_int16 bs = (let u = le_unsigned bs in if u < 32768 then u else u - 65536)"

definition le_int32 :: "byte list \<Rightarrow> int" where
  "le_int32 bs = (let u = le_unsigned bs in if u < 2147483648 then u else u - 4294967296)"

definition le_word32 :: "byte list \<Rightarrow> 32 word" where
  "le_word32 bs = word_of_int (le_unsigned bs)"

subsection \<open>Constants of the format\<close>

definition MAGIC :: "byte list" where
  "MAGIC = [0x53, 0x4C, 0x52, 0x44]"

definition VERSION :: int where
  "VERSION = 1"

definition MINUTES_PER_DAY :: int where
  "MINUTES_PER_DAY = 1440"

text \<open>\<open>calendar.isleap\<close> of the standard library.\<close>

definition isleap :: "int \<Rightarrow> bool" where
  "isleap year = (year mod 4 = 0 \<and> (year mod 100 \<noteq> 0 \<or> year mod 400 = 0))"

subsection \<open>Floating-point values\<close>

type_synonym float64 = "64 word"
type_synonym float32 = "32 word"

text \<open>A float32 from its sign, its exponent field and its fraction field.\<close>

definition pack32 :: "nat \<Rightarrow> nat \<Rightarrow> nat \<Rightarrow> float32" where
  "pack32 s e m = of_nat (s * 2 ^ 31 + e * 2 ^ 23 + m)"

text \<open>
  \<open>astype(np.float32)\<close> on one float64, the conversion of IEEE 754 (C's cast from
  \<open>double\<close> to \<open>float\<close>): infinities stay infinities, a NaN stays a NaN (quieted, its
  payload cut to the upper 22 bits), every other value is rounded to the nearest float32,
  ties to even, and becomes an infinity when it is too large. With \<open>sig\<close> the
  significand and \<open>ex\<close> the exponent field (1 for a subnormal), the value is
  \<open>sig * 2 ^ (ex - 1075)\<close>; \<open>shift\<close> is the number of low bits of \<open>sig\<close> that a
  float32 cannot hold.
\<close>

definition astype_float32 :: "float64 \<Rightarrow> float32" where
  "astype_float32 x =
     (let b = unat x;
          s = b div 2 ^ 63;
          e = (b div 2 ^ 52) mod 2 ^ 11;
          m = b mod 2 ^ 52
      in if e = 2047 then
           (if m = 0 then pack32 s 255 0 else pack32 s 255 (2 ^ 22 + (m div 2 ^ 29) mod 2 ^ 22))
         else
           (let sig = (if e = 0 then m else 2 ^ 52 + m);
                ex = max e 1;
                shift = (if 897 \<le> ex then 29 else 29 + (897 - ex));
                q = sig div 2 ^ shift;
                r = sig mod 2 ^ shift;
                half = 2 ^ (shift - 1);
                q' = (if half < r \<or> (r = half \<and> odd q) then q + 1 else q);
                bits = (if 897 \<le> ex then (ex - 897) * 2 ^ 23 else 0) + q'
            in if 255 * 2 ^ 23 \<le> bits then pack32 s 255 0 else pack32 s 0 bits))"



subsection \<open>The data frame and the array of float32\<close>

text \<open>
  A row of the data frame that \<open>compute_solar_positions\<close> returns: the instant that
  indexes it and the two columns.
\<close>

record df_row =
  time :: int
  azimuth :: float64
  apparent_elevation :: float64

type_synonym dataframe = "df_row list"

text \<open>
  \<open>a[start::step] = vals\<close> on a numpy array: \<open>vals\<close> goes to the positions \<open>start\<close>,
  \<open>start + step\<close>, ... Numpy raises when the number of positions and of values differ;
  \<open>write_binary\<close> only assigns n values to the n positions of an array of length 2n.
\<close>

fun strided_set :: "nat \<Rightarrow> nat \<Rightarrow> 'a list \<Rightarrow> 'a list \<Rightarrow> 'a list" where
  "strided_set start step [] xs = xs"
| "strided_set start step (v # vs) xs = strided_set (start + step) step vs (xs[start := v])"

text \<open>
  \<open>np.empty(n, dtype=np.float32)\<close>: n values that nothing has initialised. The model
  takes zeros; \<open>write_binary\<close> overwrites every one of them.
\<close>

definition np_empty :: "nat \<Rightarrow> float32 list" where
  "np_empty n = replicate n 0"

datatype byteorder = Little | Big

text \<open>The four bytes of a float32 in memory, and \<open>tobytes\<close> of an array of them.\<close>

definition float32_bytes :: "byteorder \<Rightarrow> float32 \<Rightarrow> byte list" where
  "float32_bytes host w =
     (let le = [byte_at (uint w) 0, byte_at (uint w) 1, byte_at (uint w) 2, byte_at (uint w) 3]
      in case host of Little \<Rightarrow> le | Big \<Rightarrow> rev le)"

definition tobytes :: "byteorder \<Rightarrow> float32 list \<Rightarrow> byte list" where
  "tobytes host ws = concat (map (float32_bytes host) ws)"

subsection \<open>Paths and the file system\<close>

text \<open>
  A node of the file system is a directory or a regular file with its bytes. A node is
  named by the list of the components that lead to it from the root (the root is the
  empty list); \<open>fs_cwd\<close> is the name of the working directory.
\<close>

datatype node = Directory | RegularFile "byte list"

record filesystem =
  fs_cwd :: "string list"
  fs_nodes :: "string list \<rightharpoonup> node"

text \<open>\<open>p.split("/")\<close> and \<open>p.rstrip("/")\<close> on a string.\<close>

fun str_split :: "string \<Rightarrow> string list" where
  "str_split [] = [[]]"
| "str_split (c # cs) =
     (if c = CHR ''/'' then [] # str_split cs
      else (case str_split cs of [] \<Rightarrow> [[c]] | x # xs \<Rightarrow> (c # x) # xs))"

definition rstrip :: "string \<Rightarrow> string" where
  "rstrip p = rev (dropWhile (\<lambda>c. c = CHR ''/'') (rev p))"

text \<open>
  \<open>os.path.split\<close> of \<open>posixpath.py\<close>: the tail is what follows the last slash, the
  head what precedes it, without its trailing slashes unless it is made of slashes only.
  \<open>os.path.dirname\<close> is the head.
\<close>

definition split_path :: "string \<Rightarrow> string \<times> string" where
  "split_path p =
     (let head = rev (dropWhile (\<lambda>c. c \<noteq> CHR ''/'') (rev p));
          tail = rev (takeWhile (\<lambda>c. c \<noteq> CHR ''/'') (rev p))
      in (if head \<noteq> [] \<and> head \<noteq> replicate (length head) (CHR ''/'') then rstrip head
          else head, tail))"

definition dirname :: "string \<Rightarrow> string" where
  "dirname p = fst (split_path p)"

text \<open>
  The resolution of a path by the system: from the root for a path that starts with a
  slash, from the working directory otherwise, one component after the other. Before a
  component is taken, the node reached so far must be a directory (\<open>ENOENT\<close> when it
  does not exist, \<open>ENOTDIR\<close> when it is a regular file); an empty component and \<open>.\<close>
  stay there, \<open>..\<close> goes to the parent, a name goes to the child of that name, which
  need not exist. The empty path is \<open>ENOENT\<close>, and Python refuses a path with a null
  character with \<open>ValueError\<close> before the system is called.
\<close>

fun walk :: "(string list \<rightharpoonup> node) \<Rightarrow> string list \<Rightarrow> string list \<Rightarrow> error + string list" where
  "walk nodes cur [] = Inr cur"
| "walk nodes cur (c # cs) =
     (case nodes cur of
        None \<Rightarrow> Inl FileNotFoundError
      | Some (RegularFile b) \<Rightarrow> Inl NotADirectoryError
      | Some Directory \<Rightarrow>
          walk nodes (if c = [] \<or> c = ''.'' then cur
                      else if c = ''..'' then butlast cur else cur @ [c]) cs)"

definition resolve :: "filesystem \<Rightarrow> string \<Rightarrow> error + string list" where
  "resolve fs p =
     (if p = [] then Inl FileNotFoundError
      else if CHR 0x00 \<in> set p then Inl ValueError
      else walk (fs_nodes fs) (if hd p = CHR ''/'' then [] else fs_cwd fs) (str_split p))"

text \<open>\<open>os.path.exists\<close> and \<open>os.path.isdir\<close>: \<open>os.stat\<close> succeeds (on a directory).\<close>

definition exists :: "filesystem \<Rightarrow> string \<Rightarrow> bool" where
  "exists fs p = (case resolve fs p of Inl e \<Rightarrow> False | Inr k \<Rightarrow> fs_nodes fs k \<noteq> None)"

definition isdir :: "filesystem \<Rightarrow> string \<Rightarrow> bool" where
  "isdir fs p =
     (case resolve fs p of Inl e \<Rightarrow> False | Inr k \<Rightarrow> fs_nodes fs k = Some Directory)"

definition is_OSError :: "error \<Rightarrow> bool" where
  "is_OSError e = (e = FileNotFoundError \<or> e = NotADirectoryError \<or> e = FileExistsError
                   \<or> e = IsADirectoryError)"

text \<open>
  \<open>os.mkdir\<close>: trailing slashes do not count; \<open>EEXIST\<close> when the path names a node
  that exists, of either kind.
\<close>

definition mkdir :: "string \<Rightarrow> filesystem \<Rightarrow> error + filesystem" where
  "mkdir p fs =
     (case resolve fs (if p = replicate (length p) (CHR ''/'') then p else rstrip p) of
        Inl e \<Rightarrow> Inl e
      | Inr k \<Rightarrow>
          (case fs_nodes fs k of
             Some n \<Rightarrow> Inl FileExistsError
           | None \<Rightarrow> Inr (fs\<lparr>fs_nodes := (fs_nodes fs)(k \<mapsto> Directory)\<rparr>)))"

text \<open>
  \<open>os.makedirs(name, exist_ok=exist_ok)\<close> of \<open>os.py\<close>, with the file system
  afterwards and the exception raised, if any. \<open>mkdir_leaf\<close> is its last statement:
  \<open>mkdir(name)\<close>, where an \<open>OSError\<close> is passed over when \<open>exist_ok\<close> is set and the
  name is a directory. \<open>split2\<close> is its first: the head and the tail of the name, split
  once more when the tail is empty. When the head does not exist, it is made first, by
  the same function; a \<open>FileExistsError\<close> of that call is passed over, and nothing more
  is done when the tail is \<open>.\<close>.
\<close>

definition mkdir_leaf :: "string \<Rightarrow> bool \<Rightarrow> filesystem \<Rightarrow> filesystem \<times> error option" where
  "mkdir_leaf name exist_ok fs =
     (case mkdir name fs of
        Inr fs' \<Rightarrow> (fs', None)
      | Inl e \<Rightarrow>
          if is_OSError e \<and> exist_ok \<and> isdir fs name then (fs, None) else (fs, Some e))"

definition split2 :: "string \<Rightarrow> string \<times> string" where
  "split2 name =
     (let (head, tail) = split_path name in if tail = [] then split_path head else (head, tail))"

function makedirs :: "string \<Rightarrow> bool \<Rightarrow> filesystem \<Rightarrow> filesystem \<times> error option" where
  "makedirs name exist_ok fs =
     (let head = fst (split2 name); tail = snd (split2 name)
      in if head \<noteq> [] \<and> tail \<noteq> [] \<and> \<not> exists fs head then
           (case makedirs head exist_ok fs of
              (fs1, raised) \<Rightarrow>
                if raised \<noteq> None \<and> raised \<noteq> Some FileExistsError then (fs1, raised)
                else if tail = ''.'' then (fs1, None)
                else mkdir_leaf name exist_ok fs1)
         else mkdir_leaf name exist_ok fs)"
  by pat_completeness auto

text \<open>
  \<open>open(p, "wb")\<close>: the file is created, or emptied when it exists, and the node that
  the handle writes to is returned. A path that ends with a slash, and one that names a
  directory, raise \<open>IsADirectoryError\<close>.
\<close>

definition open_wb :: "string \<Rightarrow> filesystem \<Rightarrow> error + filesystem \<times> string list" where
  "open_wb p fs =
     (if p \<noteq> [] \<and> last p = CHR ''/'' then
        (case resolve fs (if p = replicate (length p) (CHR ''/'') then p else rstrip p) of
           Inl e \<Rightarrow> Inl e
         | Inr k \<Rightarrow> Inl IsADirectoryError)
      else
        (case resolve fs p of
           Inl e \<Rightarrow> Inl e
         | Inr k \<Rightarrow>
             (case fs_nodes fs k of
                Some Directory \<Rightarrow> Inl IsADirectoryError
              | _ \<Rightarrow> Inr (fs\<lparr>fs_nodes := (fs_nodes fs)(k \<mapsto> RegularFile [])\<rparr>, k))))"

text \<open>What a reader that opens the path finds: the bytes of the regular file it names.\<close>

definition read_file :: "filesystem \<Rightarrow> string \<Rightarrow> byte list option" where
  "read_file fs p =
     (case resolve fs p of
        Inl e \<Rightarrow> None
      | Inr k \<Rightarrow> (case fs_nodes fs k of Some (RegularFile b) \<Rightarrow> Some b | _ \<Rightarrow> None))"

subsection \<open>\<open>write_binary\<close>\<close>

text \<open>The warning that \<open>write_binary\<close> prints: the expected and the actual number of rows.\<close>

datatype warning = ExpectedRowsButGot int nat

text \<open>
  The \<open>f.write\<close> calls of the \<open>with\<close> block, in order. The argument of each call is
  evaluated just before the call, so a \<open>struct.pack\<close> that raises stops the block with
  the bytes of the earlier calls written.
\<close>

fun write_all :: "byte list \<Rightarrow> (error + byte list) list \<Rightarrow> byte list \<times> error option" where
  "write_all f [] = (f, None)"
| "write_all f (Inl e # ws) = (f, Some e)"
| "write_all f (Inr bs # ws) = write_all (f @ bs) ws"

text \<open>
  \<open>write_binary(df, path, year)\<close> on a host of byte order \<open>host\<close>, from a file system:
  the file system afterwards, what was printed, and the number of rows returned or the
  exception raised. \<open>os.makedirs\<close> makes the directory of the path, \<open>open\<close> creates or
  empties the file, the \<open>with\<close> block writes into it, and leaving the block, normally
  or by an exception, closes the file with the bytes written so far.
\<close>

definition write_binary ::
  "byteorder \<Rightarrow> dataframe \<Rightarrow> string \<Rightarrow> int \<Rightarrow> filesystem
     \<Rightarrow> filesystem \<times> warning list \<times> (error + nat)" where
  "write_binary host df path year fs =
     (let is_leap = isleap year;
          expected_minutes = (if is_leap then 366 else 365) * MINUTES_PER_DAY
      in case makedirs (dirname path) True fs of
           (fs1, Some e) \<Rightarrow> (fs1, [], Inl e)
         | (fs1, None) \<Rightarrow>
             (case open_wb path fs1 of
                Inl e \<Rightarrow> (fs1, [], Inl e)
              | Inr (fs2, fd) \<Rightarrow>
                  (let azimuths = map (astype_float32 \<circ> azimuth) df;
                       elevations = map (astype_float32 \<circ> apparent_elevation) df;
                       interleaved = strided_set 1 2 elevations
                                       (strided_set 0 2 azimuths (np_empty (length azimuths * 2)));
                       (f, raised) = write_all []
                          [Inr MAGIC, pack_h VERSION, pack_h year, pack_i expected_minutes,
                           pack_i 0, Inr (tobytes host interleaved)];
                       fs3 = fs2\<lparr>fs_nodes := (fs_nodes fs2)(fd \<mapsto> RegularFile f)\<rparr>
                   in case raised of
                        Some e \<Rightarrow> (fs3, [], Inl e)
                      | None \<Rightarrow>
                          (let count = length df
                           in (fs3, if int count \<noteq> expected_minutes
                                    then [ExpectedRowsButGot expected_minutes count] else [],
                               Inr count)))))"

subsection \<open>The reader of the format\<close>

datatype decode_error = BadMagic | UnsupportedVersion | TruncatedFile

record header =
  hdr_version :: int
  hdr_year :: int
  hdr_totalSampleCount :: int
  hdr_reserved :: int

text \<open>
  Modelled from the spec: the decoder of the format, which the repository keeps in its
  loader (\<open>SolarDataLoader.cs\<close>) and which is not among the sources here. It follows the
  three checks of the decode contract in their order (magic, version, then the number of
  bytes after the 16-byte header against a multiple of 8 and against the declared count),
  reads the fields at the offsets of the file layout, ignores the value of the reserved
  field, and returns the samples as pairs of float32 without looking at their values.
\<close>

definition decode :: "byte list \<Rightarrow> decode_error + (header \<times> (float32 \<times> float32) list)" where
  "decode bs =
     (if take 4 bs \<noteq> MAGIC then Inl BadMagic
      else if le_int16 (take 2 (drop 4 bs)) \<noteq> VERSION then Inl UnsupportedVersion
      else
        (let count = le_int32 (take 4 (drop 8 bs));
             payload = drop 16 bs
         in if length payload mod 8 \<noteq> 0 then Inl TruncatedFile
            else if int (length payload) \<noteq> count * 8 then Inl TruncatedFile
            else Inr (\<lparr>hdr_version = le_int16 (take 2 (drop 4 bs)),
                       hdr_year = le_int16 (take 2 (drop 6 bs)),
                       hdr_totalSampleCount = count,
                       hdr_reserved = le_int32 (take 4 (drop 12 bs))\<rparr>,
                      map (\<lambda>i. (le_word32 (take 4 (drop (8 * i) payload)),
                                 le_word32 (take 4 (drop (8 * i + 4) payload))))
                          [0..<length payload div 8])))"

subsection \<open>Instants, wall-clock times and time zones\<close>

text \<open>
  Pandas counts nanoseconds since 1970-01-01 00:00 UTC; every instant of the script is a
  whole minute, so an instant is here a number of minutes since that epoch, and a
  wall-clock time without a zone is the same count read on the local clock. The range of
  years that a pandas \<open>Timestamp\<close> can hold is not modelled.
\<close>

text \<open>The days before January 1 of a year, from 0001-01-01 (proleptic Gregorian calendar).\<close>

definition days_before_year :: "int \<Rightarrow> int" where
  "days_before_year year = (let y = year - 1 in y * 365 + y div 4 - y div 100 + y div 400)"

definition days_in_month :: "int \<Rightarrow> int list" where
  "days_in_month year = [31, if isleap year then 29 else 28, 31, 30, 31, 30, 31, 31, 30, 31, 30, 31]"

text \<open>
  The wall-clock time \<open>year-month-day hour:minute\<close>, what pandas reads from the strings
  \<open>"{year}-01-01"\<close> and \<open>"{year}-12-31 23:59:00"\<close>.
\<close>

definition ymd_minute :: "int \<Rightarrow> int \<Rightarrow> int \<Rightarrow> int \<Rightarrow> int \<Rightarrow> int" where
  "ymd_minute year month day hour minute =
     ((days_before_year year - days_before_year 1970
         + sum_list (take (nat (month - 1)) (days_in_month year)) + (day - 1)) * 24 + hour) * 60
       + minute"

text \<open>
  A zone of the tz database, as its file has it: the UTC offset (in minutes) in force
  before the first transition, and the transitions in ascending order, each the instant
  from which a new offset is in force.
\<close>

record tzinfo =
  tz_first :: int
  tz_transitions :: "(int \<times> int) list"

fun utcoffset_from :: "int \<Rightarrow> (int \<times> int) list \<Rightarrow> int \<Rightarrow> int" where
  "utcoffset_from cur [] t = cur"
| "utcoffset_from cur ((since, off) # rest) t =
     (if since \<le> t then utcoffset_from off rest t else cur)"

text \<open>The UTC offset in force at an instant.\<close>

definition utcoffset :: "tzinfo \<Rightarrow> int \<Rightarrow> int" where
  "utcoffset tz t = utcoffset_from (tz_first tz) (tz_transitions tz) t"

text \<open>
  \<open>tz_localize\<close> with pandas' defaults, which \<open>pd.Timestamp(..., tz=...)\<close> applies: the
  instant whose wall-clock time in the zone is \<open>w\<close>; a wall-clock time that the zone
  skips raises \<open>NonExistentTimeError\<close>, one that it repeats raises \<open>AmbiguousTimeError\<close>.
\<close>

definition tz_localize :: "tzinfo \<Rightarrow> int \<Rightarrow> error + int" where
  "tz_localize tz w =
     (case remdups (filter (\<lambda>t. t + utcoffset tz t = w)
                      (map (\<lambda>off. w - off) (tz_first tz # map snd (tz_transitions tz)))) of
        [] \<Rightarrow> Inl NonExistentTimeError
      | [t] \<Rightarrow> Inr t
      | _ \<Rightarrow> Inl AmbiguousTimeError)"

text \<open>\<open>pd.Timestamp(s, tz=timezone)\<close>, with the tz database a map from zone names.\<close>

definition Timestamp :: "(string \<rightharpoonup> tzinfo) \<Rightarrow> int \<Rightarrow> string \<Rightarrow> error + int" where
  "Timestamp tzdb w timezone =
     (case tzdb timezone of
        None \<Rightarrow> Inl UnknownTimeZoneError
      | Some tz \<Rightarrow> tz_localize tz w)"

text \<open>
  \<open>pd.date_range(start, end, freq="1min")\<close> on two instants of the same zone: the
  instants from \<open>start\<close> to \<open>end\<close>, one minute of elapsed time apart.
\<close>

definition date_range :: "int \<Rightarrow> int \<Rightarrow> int list" where
  "date_range start end' = [start..end']"

subsection \<open>\<open>compute_solar_positions\<close>\<close>

text \<open>
  The position function of pvlib is a parameter. For one instant and a latitude, a
  longitude and an altitude it gives the six columns of pvlib, or raises.
  \<open>get_solarposition\<close> is its vectorised call: one row per instant, indexed by the
  instant, and the exception of the first instant that has one.
\<close>

record solar_position =
  sp_apparent_zenith :: float64
  sp_zenith :: float64
  sp_apparent_elevation :: float64
  sp_elevation :: float64
  sp_azimuth :: float64
  sp_equation_of_time :: float64

type_synonym position_function = "int \<Rightarrow> real \<Rightarrow> real \<Rightarrow> real \<Rightarrow> error + solar_position"

fun get_solarposition ::
  "position_function \<Rightarrow> int list \<Rightarrow> real \<Rightarrow> real \<Rightarrow> real \<Rightarrow> error + (int \<times> solar_position) list"
where
  "get_solarposition sp [] lat lon alt = Inr []"
| "get_solarposition sp (t # ts) lat lon alt =
     (case sp t lat lon alt of
        Inl e \<Rightarrow> Inl e
      | Inr r \<Rightarrow>
          (case get_solarposition sp ts lat lon alt of
             Inl e \<Rightarrow> Inl e
           | Inr rs \<Rightarrow> Inr ((t, r) # rs)))"

text \<open>
  \<open>compute_solar_positions(latitude, longitude, altitude, timezone, year)\<close>; what it
  prints is left out.
\<close>

definition compute_solar_positions ::
  "(string \<rightharpoonup> tzinfo) \<Rightarrow> position_function \<Rightarrow> real \<Rightarrow> real \<Rightarrow> real \<Rightarrow> string \<Rightarrow> int
     \<Rightarrow> error + dataframe" where
  "compute_solar_positions tzdb sp latitude longitude altitude timezone year =
     (case Timestamp tzdb (ymd_minute year 1 1 0 0) timezone of
        Inl e \<Rightarrow> Inl e
      | Inr start \<Rightarrow>
     (case Timestamp tzdb (ymd_minute year 12 31 23 59) timezone of
        Inl e \<Rightarrow> Inl e
      | Inr end' \<Rightarrow>
          (let times = date_range start end'
           in case get_solarposition sp times latitude longitude altitude of
                Inl e \<Rightarrow> Inl e
              | Inr solpos \<Rightarrow>
                  Inr (map (\<lambda>(t, r). \<lparr>time = t, azimuth = sp_azimuth r,
                                       apparent_elevation = sp_apparent_elevation r\<rparr>)
                         solpos))))"

subsection \<open>The loop of \<open>main\<close>\<close>

record city =
  city_latitude :: real
  city_longitude :: real
  city_altitude :: real
  city_timezone :: string

definition Cities :: "(string \<times> city) list" where
  "Cities = [(''Manhattan'',
              \<lparr>city_latitude = 40.7826, city_longitude = - 73.9656, city_altitude = 33,
                city_timezone = ''America/New_York''\<rparr>)]"

text \<open>
  The body of the loop of \<open>main\<close> for one city and one year, without the optional CSV
  file and without what it prints: the positions are computed, then written. \<open>bin_path\<close>
  is the path that \<open>main\<close> builds from the name of the city and the year. An exception
  of \<open>compute_solar_positions\<close> ends the run before \<open>write_binary\<close> is called.
\<close>

definition main_job ::
  "byteorder \<Rightarrow> (string \<rightharpoonup> tzinfo) \<Rightarrow> position_function \<Rightarrow> city \<Rightarrow> string \<Rightarrow> int \<Rightarrow> filesystem
     \<Rightarrow> filesystem \<times> warning list \<times> (error + nat)" where
  "main_job host tzdb sp info bin_path year fs =
     (case compute_solar_positions tzdb sp (city_latitude info) (city_longitude info)
             (city_altitude info) (city_timezone info) year of
        Inl e \<Rightarrow> (fs, [], Inl e)
      | Inr df \<Rightarrow> write_binary host df bin_path year fs)"

subsection \<open>The index of the file\<close>

text \<open>
  The index of the format is \<open>(dayOfYear - 1) * 1440 + minuteOfDay\<close>, with the day of
  the year counted from 1 and the minute of the day from 0, both on the local wall clock.
  For an instant, a zone and a year, \<open>wall_index\<close> is that index: the minutes from
  January 1, 00:00 on the wall clock to the wall-clock time of the instant.
\<close>

definition wall_index :: "tzinfo \<Rightarrow> int \<Rightarrow> int \<Rightarrow> int" where
  "wall_index tz year t = t + utcoffset tz t - ymd_minute year 1 1 0 0"

definition dayOfYear :: "tzinfo \<Rightarrow> int \<Rightarrow> int \<Rightarrow> int" where
  "dayOfYear tz year t = wall_index tz year t div 1440 + 1"

definition minuteOfDay :: "tzinfo \<Rightarrow> int \<Rightarrow> int \<Rightarrow> int" where
  "minuteOfDay tz year t = wall_index tz year t mod 1440"

subsection \<open>Data for examples\<close>

text \<open>
  America/New_York as the tz database has it from November 2023 to the end of 2025:
  UTC-5, and UTC-4 from 2024-03-10 07:00 UTC to 2024-11-03 06:00 UTC and from 2025-03-09
  07:00 UTC to 2025-11-02 06:00 UTC. Europe/Moscow from 2010-10-31 to October 2014: UTC+3,
  and UTC+4 from 2011-03-26 23:00 UTC on.
\<close>

definition America_New_York :: tzinfo where
  "America_New_York =
     \<lparr>tz_first = - 300,
      tz_transitions = [(28500900, - 240), (28843560, - 300), (29025060, - 240),
                        (29367720, - 300)]\<rparr>"

definition Europe_Moscow :: tzinfo where
  "Europe_Moscow = \<lparr>tz_first = 180, tz_transitions = [(21686340, 240)]\<rparr>"

definition tzdata :: "string \<rightharpoonup> tzinfo" where
  "tzdata = [''America/New_York'' \<mapsto> America_New_York, ''Europe/Moscow'' \<mapsto> Europe_Moscow]"

text \<open>The entry of \<open>Cities\<close> for Manhattan.\<close>

definition Manhattan :: city where
  "Manhattan = \<lparr>city_latitude = 40.7826, city_longitude = - 73.9656, city_altitude = 33,
                 city_timezone = ''America/New_York''\<rparr>"

text \<open>
  Two position functions for examples: one gives the same finite position (azimuth
  180.0, elevation 45.0) at every instant, the other a NaN as the azimuth.
\<close>

definition fixed_position :: position_function where
  "fixed_position t lat lon alt =
     Inr \<lparr>sp_apparent_zenith = 0x4046800000000000, sp_zenith = 0x4046800000000000,
          sp_apparent_elevation = 0x4046800000000000, sp_elevation = 0x4046800000000000,
          sp_azimuth = 0x4066800000000000, sp_equation_of_time = 0\<rparr>"

definition nan_position :: position_function where
  "nan_position t lat lon alt =
     Inr \<lparr>sp_apparent_zenith = 0x4046800000000000, sp_zenith = 0x4046800000000000,
          sp_apparent_elevation = 0x4046800000000000, sp_elevation = 0x4046800000000000,
          sp_azimuth = 0x7FF8000000000000, sp_equation_of_time = 0\<rparr>"

text \<open>The rows that the two position functions give for the instants of a range.\<close>

definition fixed_rows :: "int \<Rightarrow> int \<Rightarrow> dataframe" where
  "fixed_rows start end' =
     map (\<lambda>t. \<lparr>time = t, azimuth = 0x4066800000000000,
                apparent_elevation = 0x4046800000000000\<rparr>) [start..end']"

definition nan_rows :: "int \<Rightarrow> int \<Rightarrow> dataframe" where
  "nan_rows start end' =
     map (\<lambda>t. \<lparr>time = t, azimuth = 0x7FF8000000000000,
                apparent_elevation = 0x4046800000000000\<rparr>) [start..end']"

text \<open>A position function that raises at one instant, 2024-01-01 05:01 UTC.\<close>

definition failing_position :: position_function where
  "failing_position t lat lon alt =
     (if t = 28401421 then Inl (PositionError ''SPA failed'') else fixed_position t lat lon alt)"

text \<open>
  A file system for examples: the root, the working directory \<open>/work\<close> and in it one
  regular file, \<open>old.bin\<close>. And a data frame of two rows: azimuth 1.0 and elevation -2.0,
  azimuth 180.0 and elevation 45.0.
\<close>

definition work_dir :: filesystem where
  "work_dir = \<lparr>fs_cwd = [''work''],
                fs_nodes = [[] \<mapsto> Directory, [''work''] \<mapsto> Directory,
                            [''work'', ''old.bin''] \<mapsto> RegularFile [7]]\<rparr>"

definition two_rows :: dataframe where
  "two_rows = [\<lparr>time = 0, azimuth = 0x3FF0000000000000,
                 apparent_elevation = 0xC000000000000000\<rparr>,
               \<lparr>time = 1, azimuth = 0x4066800000000000,
                 apparent_elevation = 0x4046800000000000\<rparr>]"

text \<open>A data frame of n rows that are all the same: azimuth 1.0 and elevation -2.0.\<close>

definition constant_rows :: "nat \<Rightarrow> dataframe" where
  "constant_rows n = replicate n \<lparr>time = 0, azimuth = 0x3FF0000000000000,
                                    apparent_elevation = 0xC000000000000000\<rparr>"

section \<open>Properties\<close>

subsection \<open>Bytes and integers\<close>


lemma uint_byte_at: "uint (byte_at k i) = (k div 256 ^ i) mod 256"
  by (simp add: byte_at_def uint_word_of_int)

lemma mod_step: "0 < n \<Longrightarrow> (k::int) mod 256 + 256 * ((k div 256) mod n) = k mod (256 * n)"
  by (simp add: zmod_zmult2_eq)

lemma le_unsigned_4:
  "le_unsigned [byte_at k 0, byte_at k 1, byte_at k 2, byte_at k 3] = k mod 4294967296"
proof -
  define k1 where "k1 = k div 256"
  define k2 where "k2 = k1 div 256"
  define k3 where "k3 = k2 div 256"
  have d2: "k div 65536 = k2"
    unfolding k2_def k1_def using zdiv_zmult2_eq [where a = k and b = 256 and c = 256] by simp
  have d3: "k div 16777216 = k3"
    unfolding k3_def d2 [symmetric]
    using zdiv_zmult2_eq [where a = k and b = 65536 and c = 256] by simp
  have s3: "k2 mod 256 + 256 * (k3 mod 256) = k2 mod 65536"
    unfolding k3_def using mod_step [of 256 k2] by simp
  have s2: "k1 mod 256 + 256 * (k2 mod 65536) = k1 mod 16777216"
    unfolding k2_def using mod_step [of 65536 k1] by simp
  have s1: "k mod 256 + 256 * (k1 mod 16777216) = k mod 4294967296"
    unfolding k1_def using mod_step [of 16777216 k] by simp
  have "le_unsigned [byte_at k 0, byte_at k 1, byte_at k 2, byte_at k 3]
        = k mod 256 + 256 * (k1 mod 256 + 256 * (k2 mod 256 + 256 * (k3 mod 256)))"
    unfolding d2 [symmetric] d3 [symmetric] k1_def
    by (simp add: le_unsigned_def uint_byte_at)
  also have "\<dots> = k mod 4294967296"
    unfolding s3 s2 s1 ..
  finally show ?thesis .
qed

lemma le_unsigned_2: "le_unsigned [byte_at k 0, byte_at k 1] = k mod 65536"
  using mod_step [of 256 k] by (simp add: le_unsigned_def uint_byte_at)

lemma le_int16_pack:
  assumes "- 32768 \<le> v" "v \<le> 32767"
  shows "le_int16 [byte_at v 0, byte_at v 1] = v"
proof (cases "0 \<le> v")
  case True
  with assms have "v mod 65536 = v" by simp
  with assms show ?thesis unfolding le_int16_def le_unsigned_2 by (simp add: Let_def)
next
  case False
  have "v mod 65536 = (v + 65536) mod 65536" by simp
  also have "\<dots> = v + 65536" using assms False by (intro mod_pos_pos_trivial) auto
  finally show ?thesis using False assms unfolding le_int16_def le_unsigned_2
    by (simp add: Let_def)
qed

lemma le_int32_pack:
  assumes "- 2147483648 \<le> v" "v \<le> 2147483647"
  shows "le_int32 [byte_at v 0, byte_at v 1, byte_at v 2, byte_at v 3] = v"
proof (cases "0 \<le> v")
  case True
  with assms have "v mod 4294967296 = v" by simp
  with assms show ?thesis unfolding le_int32_def le_unsigned_4 by (simp add: Let_def)
next
  case False
  have "v mod 4294967296 = (v + 4294967296) mod 4294967296" by simp
  also have "\<dots> = v + 4294967296" using assms False by (intro mod_pos_pos_trivial) auto
  finally show ?thesis using False assms unfolding le_int32_def le_unsigned_4
    by (simp add: Let_def)
qed

lemma uint32_bound: "uint (w :: 32 word) < 4294967296"
  using uint_lt2p [of w] by simp

lemma le_word32_float32_bytes: "le_word32 (float32_bytes Little w) = w"
proof -
  have "uint w mod 4294967296 = uint w"
    using uint32_bound [of w] by (intro mod_pos_pos_trivial) auto
  then show ?thesis
    unfolding le_word32_def float32_bytes_def Let_def byteorder.case le_unsigned_4
    by simp
qed

lemma uint8_bound: "uint (b :: byte) < 256" "0 \<le> uint b"
  using uint_lt2p [of b] by simp_all

lemma byte_at_le_unsigned_4:
  fixes b0 b1 b2 b3 :: byte
  defines "u \<equiv> le_unsigned [b0, b1, b2, b3]"
  shows "byte_at u 0 = b0" "byte_at u 1 = b1" "byte_at u 2 = b2" "byte_at u 3 = b3"
proof -
  have u: "u = uint b0 + 256 * (uint b1 + 256 * (uint b2 + 256 * uint b3))"
    by (simp add: u_def le_unsigned_def)
  note bs = uint8_bound [of b0] uint8_bound [of b1] uint8_bound [of b2] uint8_bound [of b3]
  define u1 where "u1 = uint b1 + 256 * (uint b2 + 256 * uint b3)"
  define u2 where "u2 = uint b2 + 256 * uint b3"
  have e0: "u = uint b0 + 256 * u1" by (simp add: u u1_def)
  have e1: "u1 = uint b1 + 256 * u2" by (simp add: u1_def u2_def)
  have m0: "u mod 256 = uint b0" and q0: "u div 256 = u1"
    using bs unfolding e0 by simp_all
  have m1: "u1 mod 256 = uint b1" and q1: "u1 div 256 = u2"
    using bs unfolding e1 by simp_all
  have m2: "u2 mod 256 = uint b2" and q2: "u2 div 256 = uint b3"
    using bs unfolding u2_def by simp_all
  have d2: "u div 65536 = u2"
    using zdiv_zmult2_eq [where a = u and b = 256 and c = 256] q0 q1 by simp
  have d3: "u div 16777216 = uint b3"
    using zdiv_zmult2_eq [where a = u and b = 65536 and c = 256] d2 q2 by simp
  have m3: "uint b3 mod 256 = uint b3"
    using bs by (intro mod_pos_pos_trivial) auto
  show "byte_at u 0 = b0" by (simp add: byte_at_def m0)
  show "byte_at u 1 = b1" by (simp add: byte_at_def q0 m1)
  show "byte_at u 2 = b2" by (simp add: byte_at_def d2 m2)
  show "byte_at u 3 = b3" by (simp add: byte_at_def d3 m3)
qed

lemma float32_bytes_le_word32:
  "float32_bytes Little (le_word32 [b0, b1, b2, b3]) = [b0, b1, b2, b3]"
proof -
  define u where "u = le_unsigned [b0, b1, b2, b3]"
  have u: "u = uint b0 + 256 * (uint b1 + 256 * (uint b2 + 256 * uint b3))"
    by (simp add: u_def le_unsigned_def)
  have "0 \<le> u \<and> u < 4294967296"
    using uint8_bound [of b0] uint8_bound [of b1] uint8_bound [of b2] uint8_bound [of b3]
    unfolding u by simp
  then have "uint (word_of_int u :: 32 word) = u"
    by (simp add: uint_word_of_int)
  then show ?thesis
    using byte_at_le_unsigned_4 [of b0 b1 b2 b3]
    by (simp add: float32_bytes_def le_word32_def u_def)
qed

lemma length_strided_set: "length (strided_set s st vs xs) = length xs"
  by (induction vs arbitrary: s xs) simp_all

lemma nth_strided_set_2:
  "j < length xs \<Longrightarrow>
   strided_set s 2 vs xs ! j =
     (if s \<le> j \<and> even (j - s) \<and> (j - s) div 2 < length vs then vs ! ((j - s) div 2)
      else xs ! j)"
proof (induction vs arbitrary: s xs)
  case Nil
  then show ?case by simp
next
  case (Cons v vs)
  have len: "j < length (xs[s := v])" using Cons.prems by simp
  show ?case
  proof (cases "j = s")
    case True
    show ?thesis unfolding strided_set.simps Cons.IH [OF len]
      using Cons.prems by (simp add: True)
  next
    case False
    show ?thesis
    proof (cases "s + 2 \<le> j")
      case True
      then obtain d where d: "j = s + 2 + d" using le_Suc_ex by blast
      show ?thesis unfolding strided_set.simps Cons.IH [OF len]
        using False by (simp add: d)
    next
      case False
      with \<open>j \<noteq> s\<close> have "j < s \<or> j = s + 1" by arith
      then show ?thesis unfolding strided_set.simps Cons.IH [OF len]
        using \<open>j \<noteq> s\<close> by auto
    qed
  qed
qed

lemma nth_pairs:
  "j < 2 * length df \<Longrightarrow>
   concat (map (\<lambda>r. [f r, g r]) df) ! j
     = (if even j then f (df ! (j div 2)) else g (df ! (j div 2)))"
proof (induction df arbitrary: j)
  case Nil
  then show ?case by simp
next
  case (Cons r df)
  consider "j = 0" | "j = 1" | j' where "j = Suc (Suc j')"
    by (metis One_nat_def not0_implies_Suc)
  then show ?case
  proof cases
    case 3
    with Cons.prems have "j' < 2 * length df" by simp
    from Cons.IH [OF this] show ?thesis by (simp add: 3)
  qed simp_all
qed

lemma interleaved_eq:
  assumes "length xs = 2 * length df"
  shows "strided_set 1 2 (map g df) (strided_set 0 2 (map f df) xs)
         = concat (map (\<lambda>r. [f r, g r]) df)"
proof (rule nth_equalityI)
  show "length (strided_set 1 2 (map g df) (strided_set 0 2 (map f df) xs))
        = length (concat (map (\<lambda>r. [f r, g r]) df))"
    using assms by (simp add: length_strided_set length_concat comp_def sum_list_triv)
next
  fix j
  assume "j < length (strided_set 1 2 (map g df) (strided_set 0 2 (map f df) xs))"
  then have j: "j < 2 * length df" using assms by (simp add: length_strided_set)
  then have jx: "j < length xs" using assms by simp
  have jd: "j div 2 < length df" using j by simp
  show "strided_set 1 2 (map g df) (strided_set 0 2 (map f df) xs) ! j
        = concat (map (\<lambda>r. [f r, g r]) df) ! j"
  proof (cases "even j")
    case True
    then obtain m where m: "j = 2 * m" by (auto elim: evenE)
    with j have "m < length df" by simp
    then show ?thesis
      using jx j by (auto simp add: nth_strided_set_2 length_strided_set nth_pairs m)
  next
    case False
    then obtain m where m: "j = 2 * m + 1" by (auto elim: oddE)
    with j have "m < length df" by simp
    then show ?thesis
      using False jx j by (simp add: nth_strided_set_2 length_strided_set nth_pairs m)
  qed
qed

lemma tobytes_pairs:
  "tobytes host (concat (map (\<lambda>r. [f r, g r]) df))
   = concat (map (\<lambda>r. float32_bytes host (f r) @ float32_bytes host (g r)) df)"
  by (induction df) (simp_all add: tobytes_def)

lemma length_float32_bytes: "length (float32_bytes host w) = 4"
  by (cases host) (simp_all add: float32_bytes_def)

lemma length_chunks:
  "(\<And>x. length (h x) = k) \<Longrightarrow> length (concat (map h xs)) = k * length xs"
  by (induction xs) simp_all

lemma chunk_at:
  "(\<And>x. length (h x) = k) \<Longrightarrow> i < length xs \<Longrightarrow>
   take k (drop (k * i) (concat (map h xs))) = h (xs ! i)"
proof (induction xs arbitrary: i)
  case Nil
  then show ?case by simp
next
  case (Cons x xs)
  show ?case
  proof (cases i)
    case 0
    then show ?thesis using Cons.prems(1) by simp
  next
    case (Suc i')
    with Cons.prems have "i' < length xs" by simp
    from Cons.IH [OF Cons.prems(1) this] show ?thesis
      using Cons.prems(1) by (simp add: Suc)
  qed
qed

subsection \<open>Paths and directories\<close>

lemma length_rstrip: "length (rstrip x) \<le> length x"
  using length_dropWhile_le [of "\<lambda>c. c = CHR ''/''" "rev x"] by (simp add: rstrip_def)

lemma length_split_path: "length (fst (split_path p)) + length (snd (split_path p)) \<le> length p"
proof -
  let ?h = "rev (dropWhile (\<lambda>c. c \<noteq> CHR ''/'') (rev p))"
  let ?t = "rev (takeWhile (\<lambda>c. c \<noteq> CHR ''/'') (rev p))"
  have "length (takeWhile (\<lambda>c. c \<noteq> CHR ''/'') (rev p) @ dropWhile (\<lambda>c. c \<noteq> CHR ''/'') (rev p))
        = length (rev p)"
    by (simp only: takeWhile_dropWhile_id)
  then have "length ?t + length ?h = length p"
    by (simp only: length_append length_rev)
  moreover have "length (fst (split_path p)) \<le> length ?h"
    using length_rstrip [of ?h] by (simp add: split_path_def Let_def)
  moreover have "length (snd (split_path p)) = length ?t"
    by (simp add: split_path_def Let_def)
  ultimately show ?thesis by linarith
qed

lemma split2_shorter: "snd (split2 name) \<noteq> [] \<Longrightarrow> length (fst (split2 name)) < length name"
proof -
  assume t: "snd (split2 name) \<noteq> []"
  obtain a b where s: "split_path name = (a, b)" by (cases "split_path name")
  have l1: "length a + length b \<le> length name"
    using length_split_path [of name] by (simp add: s)
  show ?thesis
  proof (cases "b = []")
    case False
    then have "0 < length b" by simp
    with l1 have "length a < length name" by linarith
    with False show ?thesis by (simp add: split2_def s)
  next
    case True
    then have e: "split2 name = split_path a" by (simp add: split2_def s)
    from t have "0 < length (snd (split_path a))" by (simp add: e)
    with length_split_path [of a] l1 have "length (fst (split_path a)) < length name"
      by linarith
    then show ?thesis by (simp add: e)
  qed
qed

termination makedirs
  by (relation "measure (\<lambda>(name, exist_ok, fs). length name)") (simp_all add: split2_shorter)

declare makedirs.simps [simp del]

lemma makedirs_no_name: "makedirs [] exist_ok fs = (fs, Some FileNotFoundError)"
  by (simp add: makedirs.simps [of "[]"] split2_def split_path_def mkdir_leaf_def mkdir_def
        resolve_def isdir_def)

lemma walk_update:
  "walk nodes cur cs = Inr k \<Longrightarrow> nodes k0 \<noteq> Some Directory
   \<Longrightarrow> walk (nodes(k0 \<mapsto> n)) cur cs = Inr k"
proof (induction cs arbitrary: cur)
  case Nil
  then show ?case by simp
next
  case (Cons c cs)
  from Cons.prems(1) have d: "nodes cur = Some Directory"
    by (simp split: option.splits node.splits)
  with Cons.prems(2) have ne: "cur \<noteq> k0" by auto
  from Cons.prems(1) d
  have "walk nodes (if c = [] \<or> c = ''.'' then cur
                    else if c = ''..'' then butlast cur else cur @ [c]) cs = Inr k"
    by simp
  from Cons.IH [OF this Cons.prems(2)] d ne show ?case by simp
qed

lemma open_wb_Inr:
  assumes "open_wb p fs = Inr (fs2, fd)"
  shows "resolve fs p = Inr fd"
    and "fs_nodes fs fd \<noteq> Some Directory"
    and "fs2 = fs\<lparr>fs_nodes := (fs_nodes fs)(fd \<mapsto> RegularFile [])\<rparr>"
  using assms
  by (auto simp add: open_wb_def split: if_splits sum.splits option.splits node.splits)

lemma resolve_written:
  assumes "resolve fs p = Inr fd" and "fs_nodes fs fd \<noteq> Some Directory"
  shows "resolve (fs\<lparr>fs_nodes := (fs_nodes fs)(fd \<mapsto> n)\<rparr>) p = Inr fd"
proof -
  from assms(1) have p: "p \<noteq> []" "CHR 0x00 \<notin> set p"
    and w: "walk (fs_nodes fs) (if hd p = CHR ''/'' then [] else fs_cwd fs) (str_split p) = Inr fd"
    by (simp_all add: resolve_def split: if_splits)
  from walk_update [OF w assms(2), of n] p show ?thesis
    by (cases "hd p = CHR ''/''") (simp_all add: resolve_def)
qed

lemma read_file_open:
  assumes "open_wb p fs = Inr (fs2, fd)"
  shows "read_file (fs2\<lparr>fs_nodes := (fs_nodes fs2)(fd \<mapsto> RegularFile f)\<rparr>) p = Some f"
    and "read_file fs2 p = Some []"
proof -
  note o = open_wb_Inr [OF assms]
  have r: "resolve (fs\<lparr>fs_nodes := (fs_nodes fs)(fd \<mapsto> RegularFile b)\<rparr>) p = Inr fd" for b
    by (rule resolve_written [OF o(1,2)])
  show "read_file (fs2\<lparr>fs_nodes := (fs_nodes fs2)(fd \<mapsto> RegularFile f)\<rparr>) p = Some f"
    using r [of f] by (simp add: read_file_def o(3))
  show "read_file fs2 p = Some []"
    using r [of "[]"] by (simp add: read_file_def o(3))
qed

lemma mkdir_Inr:
  assumes "mkdir p fs = Inr fs'"
  obtains k where "fs_nodes fs k = None"
    and "fs' = fs\<lparr>fs_nodes := (fs_nodes fs)(k \<mapsto> Directory)\<rparr>"
proof -
  let ?q = "if p = replicate (length p) (CHR ''/'') then p else rstrip p"
  obtain k where k: "resolve fs ?q = Inr k"
    using assms by (cases "resolve fs ?q") (simp_all add: mkdir_def)
  have n: "fs_nodes fs k = None"
    using assms k by (cases "fs_nodes fs k") (simp_all add: mkdir_def)
  have f: "fs' = fs\<lparr>fs_nodes := (fs_nodes fs)(k \<mapsto> Directory)\<rparr>"
    using assms k n by (simp add: mkdir_def)
  show ?thesis by (rule that [OF n f])
qed

lemma mkdir_regular_files:
  assumes "mkdir p fs = Inr fs'"
  shows "fs_cwd fs' = fs_cwd fs"
    and "(fs_nodes fs' k = Some (RegularFile b)) = (fs_nodes fs k = Some (RegularFile b))"
proof -
  from assms obtain k0 where n: "fs_nodes fs k0 = None"
    and f: "fs' = fs\<lparr>fs_nodes := (fs_nodes fs)(k0 \<mapsto> Directory)\<rparr>"
    by (rule mkdir_Inr)
  show "fs_cwd fs' = fs_cwd fs" by (simp add: f)
  show "(fs_nodes fs' k = Some (RegularFile b)) = (fs_nodes fs k = Some (RegularFile b))"
    using n by (cases "k = k0") (simp_all add: f)
qed

lemma mkdir_leaf_regular_files:
  "fs_cwd (fst (mkdir_leaf name exist_ok fs)) = fs_cwd fs"
  "(fs_nodes (fst (mkdir_leaf name exist_ok fs)) k = Some (RegularFile b))
   = (fs_nodes fs k = Some (RegularFile b))"
proof -
  show "fs_cwd (fst (mkdir_leaf name exist_ok fs)) = fs_cwd fs"
  proof (cases "mkdir name fs")
    case (Inl e)
    then show ?thesis by (simp add: mkdir_leaf_def)
  next
    case (Inr fs')
    then show ?thesis using mkdir_regular_files(1) [OF Inr] by (simp add: mkdir_leaf_def)
  qed
  show "(fs_nodes (fst (mkdir_leaf name exist_ok fs)) k = Some (RegularFile b))
   = (fs_nodes fs k = Some (RegularFile b))"
  proof (cases "mkdir name fs")
    case (Inl e)
    then show ?thesis by (simp add: mkdir_leaf_def)
  next
    case (Inr fs')
    then show ?thesis using mkdir_regular_files(2) [OF Inr] by (simp add: mkdir_leaf_def)
  qed
qed

lemma makedirs_regular_files:
  "fs_cwd (fst (makedirs name exist_ok fs)) = fs_cwd fs
   \<and> (fs_nodes (fst (makedirs name exist_ok fs)) k = Some (RegularFile b))
     = (fs_nodes fs k = Some (RegularFile b))"
proof (induction name exist_ok fs rule: makedirs.induct)
  case (1 name exist_ok fs)
  let ?head = "fst (split2 name)" and ?tail = "snd (split2 name)"
  show ?case
  proof (cases "?head \<noteq> [] \<and> ?tail \<noteq> [] \<and> \<not> exists fs ?head")
    case False
    have "makedirs name exist_ok fs = mkdir_leaf name exist_ok fs"
      by (subst makedirs.simps) (simp only: Let_def if_not_P [OF False])
    then show ?thesis by (simp add: mkdir_leaf_regular_files)
  next
    case True
    obtain fs1 raised where r: "makedirs ?head exist_ok fs = (fs1, raised)"
      by (cases "makedirs ?head exist_ok fs")
    from "1.IH" [OF refl refl True]
    have ih: "fs_cwd fs1 = fs_cwd fs"
      "(fs_nodes fs1 k = Some (RegularFile b)) = (fs_nodes fs k = Some (RegularFile b))"
      by (simp_all add: r)
    have "makedirs name exist_ok fs
          = (if raised \<noteq> None \<and> raised \<noteq> Some FileExistsError then (fs1, raised)
             else if ?tail = ''.'' then (fs1, None)
             else mkdir_leaf name exist_ok fs1)"
      by (subst makedirs.simps) (simp only: Let_def if_P [OF True] r case_prod_conv)
    then show ?thesis
      using ih by (simp add: mkdir_leaf_regular_files)
  qed
qed

subsection \<open>What \<open>write_binary\<close> writes\<close>

lemma byte_at_simps: "byte_at 1 0 = 1" "byte_at 1 (Suc 0) = 0" "byte_at 0 i = 0"
  by (simp_all add: byte_at_def)

lemma expected_minutes_int32:
  "- 2147483648 \<le> (if isleap y then 366 else 365) * MINUTES_PER_DAY"
  "(if isleap y then 366 else 365) * MINUTES_PER_DAY \<le> 2147483647"
  by (simp_all add: MINUTES_PER_DAY_def)

lemma write_binary_makedirs_raises:
  assumes "makedirs (dirname path) True fs = (fs1, Some e)"
  shows "write_binary host df path y fs = (fs1, [], Inl e)"
  using assms by (simp add: write_binary_def Let_def)

lemma write_binary_open_raises:
  assumes "makedirs (dirname path) True fs = (fs1, None)"
    and "open_wb path fs1 = Inl e"
  shows "write_binary host df path y fs = (fs1, [], Inl e)"
  using assms by (simp add: write_binary_def Let_def)

lemma write_binary_no_directory:
  assumes "dirname path = []"
  shows "write_binary host df path y fs = (fs, [], Inl FileNotFoundError)"
  by (rule write_binary_makedirs_raises) (simp add: assms makedirs_no_name)

lemma write_binary_in_range:
  assumes "- 32768 \<le> y" "y \<le> 32767"
    and mk: "makedirs (dirname path) True fs = (fs1, None)"
    and op: "open_wb path fs1 = Inr (fs2, fd)"
  shows "write_binary host df path y fs =
    (fs2\<lparr>fs_nodes := (fs_nodes fs2)(fd \<mapsto> RegularFile
        (MAGIC @ [1, 0, byte_at y 0, byte_at y 1]
          @ [byte_at ((if isleap y then 366 else 365) * 1440) 0,
             byte_at ((if isleap y then 366 else 365) * 1440) 1,
             byte_at ((if isleap y then 366 else 365) * 1440) 2,
             byte_at ((if isleap y then 366 else 365) * 1440) 3, 0, 0, 0, 0]
          @ concat (map (\<lambda>r. float32_bytes host (astype_float32 (azimuth r))
                            @ float32_bytes host (astype_float32 (apparent_elevation r))) df)))\<rparr>,
     if int (length df) \<noteq> (if isleap y then 366 else 365) * 1440
     then [ExpectedRowsButGot ((if isleap y then 366 else 365) * 1440) (length df)] else [],
     Inr (length df))"
proof -
  have il: "strided_set 1 2 (map (astype_float32 \<circ> apparent_elevation) df)
              (strided_set 0 2 (map (astype_float32 \<circ> azimuth) df)
                 (np_empty (length (map (astype_float32 \<circ> azimuth) df) * 2)))
            = concat (map (\<lambda>r. [(astype_float32 \<circ> azimuth) r,
                                  (astype_float32 \<circ> apparent_elevation) r]) df)"
    by (rule interleaved_eq) (simp add: np_empty_def)
  show ?thesis
    unfolding write_binary_def Let_def il tobytes_pairs mk
    using assms(1,2) expected_minutes_int32 [of y]
    by (simp add: op pack_h_def pack_i_def VERSION_def MINUTES_PER_DAY_def byte_at_simps)
qed

lemma write_binary_out_of_range:
  assumes "y < - 32768 \<or> 32767 < y"
    and mk: "makedirs (dirname path) True fs = (fs1, None)"
    and op: "open_wb path fs1 = Inr (fs2, fd)"
  shows "write_binary host df path y fs
         = (fs2\<lparr>fs_nodes := (fs_nodes fs2)(fd \<mapsto> RegularFile (MAGIC @ [1, 0]))\<rparr>, [],
            Inl StructError)"
proof -
  have "pack_h y = Inl StructError" using assms(1) by (auto simp add: pack_h_def)
  then show ?thesis
    unfolding write_binary_def Let_def mk
    by (simp add: op pack_h_def VERSION_def byte_at_simps)
qed

lemma magic_ascii: "MAGIC = map (of_nat \<circ> of_char) ''SLRD''"
  by (simp add: MAGIC_def)


lemma record_at:
  assumes p: "drop 16 f = concat (map (\<lambda>r. A r @ B r) df)"
    and a: "\<And>r. length (A r) = 4" and b: "\<And>r. length (B r) = 4"
    and i: "i < length df"
  shows "take 8 (drop (16 + 8 * i) f) = A (df ! i) @ B (df ! i)"
    and "take 4 (drop (16 + 8 * i) f) = A (df ! i)"
    and "take 4 (drop (20 + 8 * i) f) = B (df ! i)"
proof -
  have d: "drop (16 + 8 * i) f = drop (8 * i) (drop 16 f)"
    by (simp add: add.commute)
  have len: "\<And>r. length (A r @ B r) = 8" by (simp add: a b)
  show r: "take 8 (drop (16 + 8 * i) f) = A (df ! i) @ B (df ! i)"
    unfolding d p using chunk_at [of "\<lambda>r. A r @ B r" 8 i df] len i by simp
  have "take 4 (drop (16 + 8 * i) f) = take 4 (take 8 (drop (16 + 8 * i) f))"
    by simp
  then show "take 4 (drop (16 + 8 * i) f) = A (df ! i)"
    unfolding r by (simp add: a)
  have "drop (20 + 8 * i) f = drop 4 (drop (16 + 8 * i) f)"
    by simp
  then have "take 4 (drop (20 + 8 * i) f) = take 4 (drop 4 (take 8 (drop (16 + 8 * i) f)))"
    by (simp add: drop_take)
  then show "take 4 (drop (20 + 8 * i) f) = B (df ! i)"
    unfolding r by (simp add: a b)
qed

lemma write_binary_file:
  assumes "- 32768 \<le> y" "y \<le> 32767"
    and mk: "makedirs (dirname path) True fs = (fs1, None)"
    and op: "open_wb path fs1 = Inr (fs2, fd)"
  obtains f where
    "write_binary host df path y fs =
       (fs2\<lparr>fs_nodes := (fs_nodes fs2)(fd \<mapsto> RegularFile f)\<rparr>,
        if int (length df) \<noteq> (if isleap y then 366 else 365) * 1440
        then [ExpectedRowsButGot ((if isleap y then 366 else 365) * 1440) (length df)] else [],
        Inr (length df))"
    "read_file (fst (write_binary host df path y fs)) path = Some f"
    "take 4 f = MAGIC"
    "take 2 (drop 4 f) = [byte_at 1 0, byte_at 1 1]"
    "take 2 (drop 6 f) = [byte_at y 0, byte_at y 1]"
    "take 4 (drop 8 f) = [byte_at ((if isleap y then 366 else 365) * 1440) 0,
                           byte_at ((if isleap y then 366 else 365) * 1440) 1,
                           byte_at ((if isleap y then 366 else 365) * 1440) 2,
                           byte_at ((if isleap y then 366 else 365) * 1440) 3]"
    "take 4 (drop 12 f) = [0, 0, 0, 0]"
    "drop 16 f = concat (map (\<lambda>r. float32_bytes host (astype_float32 (azimuth r))
                            @ float32_bytes host (astype_float32 (apparent_elevation r))) df)"
    "length f = 16 + 8 * length df"
proof -
  let ?f = "MAGIC @ [1, 0, byte_at y 0, byte_at y 1]
          @ [byte_at ((if isleap y then 366 else 365) * 1440) 0,
             byte_at ((if isleap y then 366 else 365) * 1440) 1,
             byte_at ((if isleap y then 366 else 365) * 1440) 2,
             byte_at ((if isleap y then 366 else 365) * 1440) 3, 0, 0, 0, 0]
          @ concat (map (\<lambda>r. float32_bytes host (astype_float32 (azimuth r))
                            @ float32_bytes host (astype_float32 (apparent_elevation r))) df)"
  have l8: "\<And>r. length (float32_bytes host (astype_float32 (azimuth r))
                  @ float32_bytes host (astype_float32 (apparent_elevation r))) = 8"
    by (simp add: length_float32_bytes)
  note w = write_binary_in_range [OF assms, of host df]
  have r: "read_file (fst (write_binary host df path y fs)) path = Some ?f"
    unfolding w fst_conv by (rule read_file_open(1) [OF op])
  show ?thesis
    by (rule that [OF w r])
       (simp_all add: MAGIC_def byte_at_simps length_chunks [OF l8])
qed

lemma example_paths:
  "dirname ''out/sun_pos_2024.bin'' = ''out''"
  "dirname ''out/sun_pos_2025.bin'' = ''out''"
  "dirname ''out/sun_pos_40000.bin'' = ''out''"
  "dirname ''Manhattan/sun_pos_2024.bin'' = ''Manhattan''"
  "dirname ''sun_pos_2024.bin'' = []"
  by (simp_all add: dirname_def split_path_def rstrip_def Let_def)

lemma makedirs_work_dir:
  "makedirs ''out'' True work_dir
   = (work_dir\<lparr>fs_nodes := (fs_nodes work_dir)([''work'', ''out''] \<mapsto> Directory)\<rparr>, None)"
  "makedirs ''Manhattan'' True work_dir
   = (work_dir\<lparr>fs_nodes := (fs_nodes work_dir)([''work'', ''Manhattan''] \<mapsto> Directory)\<rparr>,
      None)"
  by (simp_all add: makedirs.simps split_path_def split2_def rstrip_def Let_def exists_def
        resolve_def mkdir_leaf_def mkdir_def work_dir_def)

lemma open_wb_work_dir:
  "open_wb ''out/sun_pos_2024.bin''
     (work_dir\<lparr>fs_nodes := (fs_nodes work_dir)([''work'', ''out''] \<mapsto> Directory)\<rparr>)
   = Inr (work_dir\<lparr>fs_nodes := (fs_nodes work_dir)([''work'', ''out''] \<mapsto> Directory,
             [''work'', ''out'', ''sun_pos_2024.bin''] \<mapsto> RegularFile [])\<rparr>,
          [''work'', ''out'', ''sun_pos_2024.bin''])"
  "open_wb ''out/sun_pos_2025.bin''
     (work_dir\<lparr>fs_nodes := (fs_nodes work_dir)([''work'', ''out''] \<mapsto> Directory)\<rparr>)
   = Inr (work_dir\<lparr>fs_nodes := (fs_nodes work_dir)([''work'', ''out''] \<mapsto> Directory,
             [''work'', ''out'', ''sun_pos_2025.bin''] \<mapsto> RegularFile [])\<rparr>,
          [''work'', ''out'', ''sun_pos_2025.bin''])"
  "open_wb ''out/sun_pos_40000.bin''
     (work_dir\<lparr>fs_nodes := (fs_nodes work_dir)([''work'', ''out''] \<mapsto> Directory)\<rparr>)
   = Inr (work_dir\<lparr>fs_nodes := (fs_nodes work_dir)([''work'', ''out''] \<mapsto> Directory,
             [''work'', ''out'', ''sun_pos_40000.bin''] \<mapsto> RegularFile [])\<rparr>,
          [''work'', ''out'', ''sun_pos_40000.bin''])"
  "open_wb ''Manhattan/sun_pos_2024.bin''
     (work_dir\<lparr>fs_nodes := (fs_nodes work_dir)([''work'', ''Manhattan''] \<mapsto> Directory)\<rparr>)
   = Inr (work_dir\<lparr>fs_nodes := (fs_nodes work_dir)([''work'', ''Manhattan''] \<mapsto> Directory,
             [''work'', ''Manhattan'', ''sun_pos_2024.bin''] \<mapsto> RegularFile [])\<rparr>,
          [''work'', ''Manhattan'', ''sun_pos_2024.bin''])"
  by (simp_all add: open_wb_def resolve_def work_dir_def)

text \<open>
  Claim C1. When \<open>os.makedirs\<close> makes the directory of the path and \<open>open\<close> opens the
  file, and for a year that fits a signed 16-bit integer (every 4-digit year does),
  \<open>write_binary\<close> starts the file with a 16-byte header: the ASCII magic "SLRD" in bytes
  0-3, the version 1 as a little-endian int16 in bytes 4-5, the year as a little-endian
  int16 in bytes 6-7, the number of minutes of the year (366 or 365 days of 1440 minutes)
  as a little-endian int32 in bytes 8-11, and four zero bytes in bytes 12-15; what follows
  the header is the 8 bytes of each sample. (For a path without a directory part
  \<open>os.makedirs\<close> raises and nothing is written: \<open>write_binary_no_directory\<close>.)
\<close>

theorem write_binary_header:
  assumes "- 32768 \<le> y" "y \<le> 32767"
    and "makedirs (dirname path) True fs = (fs1, None)"
    and "open_wb path fs1 = Inr (fs2, fd)"
  shows "\<exists>f. read_file (fst (write_binary host df path y fs)) path = Some f
           \<and> length f = 16 + 8 * length df
           \<and> take 4 f = map (of_nat \<circ> of_char) ''SLRD''
           \<and> le_int16 (take 2 (drop 4 f)) = 1
           \<and> le_int16 (take 2 (drop 6 f)) = y
           \<and> le_int32 (take 4 (drop 8 f)) = (if isleap y then 366 else 365) * 1440
           \<and> take 4 (drop 12 f) = [0, 0, 0, 0]
           \<and> le_int32 (take 4 (drop 12 f)) = 0"
proof (rule write_binary_file [OF assms, of host df])
  fix f
  assume f:
    "read_file (fst (write_binary host df path y fs)) path = Some f"
    "take 4 f = MAGIC"
    "take 2 (drop 4 f) = [byte_at 1 0, byte_at 1 1]"
    "take 2 (drop 6 f) = [byte_at y 0, byte_at y 1]"
    "take 4 (drop 8 f) = [byte_at ((if isleap y then 366 else 365) * 1440) 0,
                           byte_at ((if isleap y then 366 else 365) * 1440) 1,
                           byte_at ((if isleap y then 366 else 365) * 1440) 2,
                           byte_at ((if isleap y then 366 else 365) * 1440) 3]"
    "take 4 (drop 12 f) = [0, 0, 0, 0]"
    "length f = 16 + 8 * length df"
  have v: "le_int16 (take 2 (drop 4 f)) = 1"
    unfolding f(3) by (rule le_int16_pack) simp_all
  have yr: "le_int16 (take 2 (drop 6 f)) = y"
    unfolding f(4) by (rule le_int16_pack) (rule assms)+
  have n: "le_int32 (take 4 (drop 8 f)) = (if isleap y then 366 else 365) * 1440"
    unfolding f(5) by (rule le_int32_pack) simp_all
  have z: "le_int32 (take 4 (drop 12 f)) = 0"
    unfolding f(6) by (simp add: le_int32_def le_unsigned_def)
  have m: "take 4 f = map (of_nat \<circ> of_char) ''SLRD''"
    unfolding f(2) by (rule magic_ascii)
  show ?thesis
    by (intro exI [of _ f] conjI) (rule f(1) f(7) m v yr n f(6) z)+
qed

theorem write_binary_header_witness:
  "- 32768 \<le> (2024::int) \<and> (2024::int) \<le> 32767
   \<and> makedirs (dirname ''out/sun_pos_2024.bin'') True work_dir
       = (work_dir\<lparr>fs_nodes := (fs_nodes work_dir)([''work'', ''out''] \<mapsto> Directory)\<rparr>, None)
   \<and> open_wb ''out/sun_pos_2024.bin''
         (work_dir\<lparr>fs_nodes := (fs_nodes work_dir)([''work'', ''out''] \<mapsto> Directory)\<rparr>)
       = Inr (work_dir\<lparr>fs_nodes := (fs_nodes work_dir)([''work'', ''out''] \<mapsto> Directory,
                 [''work'', ''out'', ''sun_pos_2024.bin''] \<mapsto> RegularFile [])\<rparr>,
              [''work'', ''out'', ''sun_pos_2024.bin''])
   \<and> (\<exists>f. read_file (fst (write_binary Little two_rows ''out/sun_pos_2024.bin'' 2024 work_dir))
              ''out/sun_pos_2024.bin'' = Some f
         \<and> length f = 32
         \<and> take 4 f = [0x53, 0x4C, 0x52, 0x44]
         \<and> le_int16 (take 2 (drop 4 f)) = 1
         \<and> le_int16 (take 2 (drop 6 f)) = 2024
         \<and> le_int32 (take 4 (drop 8 f)) = 527040
         \<and> take 4 (drop 12 f) = [0, 0, 0, 0])"
proof -
  have mk: "makedirs (dirname ''out/sun_pos_2024.bin'') True work_dir
       = (work_dir\<lparr>fs_nodes := (fs_nodes work_dir)([''work'', ''out''] \<mapsto> Directory)\<rparr>, None)"
    by (simp only: example_paths makedirs_work_dir)
  note op = open_wb_work_dir(1)
  have y: "- 32768 \<le> (2024::int)" "(2024::int) \<le> 32767" by simp_all
  from write_binary_header [OF y mk op, of Little two_rows]
  have "\<exists>f. read_file (fst (write_binary Little two_rows ''out/sun_pos_2024.bin'' 2024 work_dir))
              ''out/sun_pos_2024.bin'' = Some f
         \<and> length f = 32
         \<and> take 4 f = [0x53, 0x4C, 0x52, 0x44]
         \<and> le_int16 (take 2 (drop 4 f)) = 1
         \<and> le_int16 (take 2 (drop 6 f)) = 2024
         \<and> le_int32 (take 4 (drop 8 f)) = 527040
         \<and> take 4 (drop 12 f) = [0, 0, 0, 0]"
    by (auto simp add: isleap_def two_rows_def)
  then show ?thesis
    using y mk op by (intro conjI)
qed

lemma float32_bytes_little:
  "float32_bytes Little w
   = [byte_at (uint w) 0, byte_at (uint w) 1, byte_at (uint w) 2, byte_at (uint w) 3]"
  by (simp add: float32_bytes_def)

lemma float32_bytes_big:
  "float32_bytes Big w
   = [byte_at (uint w) 3, byte_at (uint w) 2, byte_at (uint w) 1, byte_at (uint w) 0]"
  by (simp add: float32_bytes_def)

text \<open>
  The payload on any host, when the directory can be made and the file opened and the
  year fits int16: the file is the header followed by one 8-byte record per row of the
  data frame, in the order of the rows. The file has 16 + 8 * count bytes, and the record
  of row i, at offset 16 + 8 * i, is the four bytes of the azimuth as a float32 followed
  by the four bytes of the elevation as a float32, each in the byte order of the host.
  On a little-endian host the least significant byte of each comes first.
\<close>

lemma write_binary_records:
  assumes "- 32768 \<le> y" "y \<le> 32767"
    and "makedirs (dirname path) True fs = (fs1, None)"
    and "open_wb path fs1 = Inr (fs2, fd)"
  shows "\<exists>f. read_file (fst (write_binary host df path y fs)) path = Some f
           \<and> length f = 16 + 8 * length df
           \<and> (\<forall>i<length df.
                 take 8 (drop (16 + 8 * i) f)
                 = float32_bytes host (astype_float32 (azimuth (df ! i)))
                   @ float32_bytes host (astype_float32 (apparent_elevation (df ! i))))"
proof (rule write_binary_file [OF assms, of host df])
  fix f
  assume r: "read_file (fst (write_binary host df path y fs)) path = Some f"
    and p: "drop 16 f = concat (map (\<lambda>r. float32_bytes host (astype_float32 (azimuth r))
                            @ float32_bytes host (astype_float32 (apparent_elevation r))) df)"
    and l: "length f = 16 + 8 * length df"
  have "take 8 (drop (16 + 8 * i) f)
        = float32_bytes host (astype_float32 (azimuth (df ! i)))
          @ float32_bytes host (astype_float32 (apparent_elevation (df ! i)))"
    if "i < length df" for i
    by (rule record_at(1) [OF p _ _ that]) (rule length_float32_bytes)+
  then show ?thesis
    using r l by simp
qed

lemma write_binary_records_little:
  assumes "- 32768 \<le> y" "y \<le> 32767"
    and "makedirs (dirname path) True fs = (fs1, None)"
    and "open_wb path fs1 = Inr (fs2, fd)"
  shows "\<exists>f. read_file (fst (write_binary Little df path y fs)) path = Some f
           \<and> length f = 16 + 8 * length df
           \<and> (\<forall>i<length df.
                 take 8 (drop (16 + 8 * i) f)
                 = [byte_at (uint (astype_float32 (azimuth (df ! i)))) 0,
                    byte_at (uint (astype_float32 (azimuth (df ! i)))) 1,
                    byte_at (uint (astype_float32 (azimuth (df ! i)))) 2,
                    byte_at (uint (astype_float32 (azimuth (df ! i)))) 3,
                    byte_at (uint (astype_float32 (apparent_elevation (df ! i)))) 0,
                    byte_at (uint (astype_float32 (apparent_elevation (df ! i)))) 1,
                    byte_at (uint (astype_float32 (apparent_elevation (df ! i)))) 2,
                    byte_at (uint (astype_float32 (apparent_elevation (df ! i)))) 3])"
  using write_binary_records [OF assms, of Little df]
  by (simp add: float32_bytes_little)

lemma astype_float32_one: "astype_float32 0x3FF0000000000000 = 0x3F800000"
  by (simp add: astype_float32_def pack32_def Let_def)

lemma astype_float32_minus_two: "astype_float32 0xC000000000000000 = 0xC0000000"
  by (simp add: astype_float32_def pack32_def Let_def)

lemma astype_float32_examples:
  "astype_float32 0x4066800000000000 = 0x43340000"
  "astype_float32 0x4046800000000000 = 0x42340000"
  by (simp_all add: astype_float32_def pack32_def Let_def)

lemma length_two_rows: "length two_rows = 2"
  by (simp add: two_rows_def)

lemma mk_out_2024:
  "makedirs (dirname ''out/sun_pos_2024.bin'') True work_dir
   = (work_dir\<lparr>fs_nodes := (fs_nodes work_dir)([''work'', ''out''] \<mapsto> Directory)\<rparr>, None)"
  by (simp only: example_paths makedirs_work_dir)

lemma mk_out_2025:
  "makedirs (dirname ''out/sun_pos_2025.bin'') True work_dir
   = (work_dir\<lparr>fs_nodes := (fs_nodes work_dir)([''work'', ''out''] \<mapsto> Directory)\<rparr>, None)"
  by (simp only: example_paths makedirs_work_dir)

lemma mk_out_40000:
  "makedirs (dirname ''out/sun_pos_40000.bin'') True work_dir
   = (work_dir\<lparr>fs_nodes := (fs_nodes work_dir)([''work'', ''out''] \<mapsto> Directory)\<rparr>, None)"
  by (simp only: example_paths makedirs_work_dir)

lemma mk_manhattan_2024:
  "makedirs (dirname ''Manhattan/sun_pos_2024.bin'') True work_dir
   = (work_dir\<lparr>fs_nodes := (fs_nodes work_dir)([''work'', ''Manhattan''] \<mapsto> Directory)\<rparr>,
      None)"
  by (simp only: example_paths makedirs_work_dir)

text \<open>
  Claim C2. The payload is written as the claim says, one record of 8 bytes per row at
  offset 16 + 8 * i, but the byte order of the two float32 of a record is that of the
  host (\<open>np.float32\<close> is a dtype of native byte order and \<open>tobytes\<close> copies the memory),
  while the docstring of the module declares the format little-endian and the header is
  packed with an explicit \<open>"<"\<close>. On a big-endian host, with the two rows (1.0, -2.0)
  and (180.0, 45.0) and the year 2024, the call returns 2 and the file has 32 bytes, the
  header little-endian, and the first record is 3F 80 00 00 C0 00 00 00, the most
  significant byte of each float32 first, where the little-endian record is
  00 00 80 3F 00 00 00 C0.
\<close>

theorem write_binary_big_endian_host:
  "write_binary Big two_rows ''out/sun_pos_2024.bin'' 2024 work_dir
   = (work_dir\<lparr>fs_nodes := (fs_nodes work_dir)([''work'', ''out''] \<mapsto> Directory,
          [''work'', ''out'', ''sun_pos_2024.bin''] \<mapsto> RegularFile
            [0x53, 0x4C, 0x52, 0x44, 0x01, 0x00, 0xE8, 0x07, 0xC0, 0x0A, 0x08, 0x00,
             0x00, 0x00, 0x00, 0x00,
             0x3F, 0x80, 0x00, 0x00, 0xC0, 0x00, 0x00, 0x00,
             0x43, 0x34, 0x00, 0x00, 0x42, 0x34, 0x00, 0x00])\<rparr>,
      [ExpectedRowsButGot 527040 2], Inr 2)
   \<and> read_file (fst (write_binary Big two_rows ''out/sun_pos_2024.bin'' 2024 work_dir))
        ''out/sun_pos_2024.bin''
      = Some [0x53, 0x4C, 0x52, 0x44, 0x01, 0x00, 0xE8, 0x07, 0xC0, 0x0A, 0x08, 0x00,
              0x00, 0x00, 0x00, 0x00,
              0x3F, 0x80, 0x00, 0x00, 0xC0, 0x00, 0x00, 0x00,
              0x43, 0x34, 0x00, 0x00, 0x42, 0x34, 0x00, 0x00]
   \<and> astype_float32 (azimuth (two_rows ! 0)) = 0x3F800000
   \<and> astype_float32 (apparent_elevation (two_rows ! 0)) = 0xC0000000
   \<and> float32_bytes Little 0x3F800000 @ float32_bytes Little 0xC0000000
      = [0x00, 0x00, 0x80, 0x3F, 0x00, 0x00, 0x00, 0xC0]
   \<and> [0x3F, 0x80, 0x00, 0x00, 0xC0, 0x00, 0x00, 0x00]
      \<noteq> float32_bytes Little 0x3F800000 @ float32_bytes Little 0xC0000000"
proof -
  have y: "- 32768 \<le> (2024::int)" "(2024::int) \<le> 32767" by simp_all
  let ?f = "[0x53, 0x4C, 0x52, 0x44, 0x01, 0x00, 0xE8, 0x07, 0xC0, 0x0A, 0x08, 0x00,
             0x00, 0x00, 0x00, 0x00,
             0x3F, 0x80, 0x00, 0x00, 0xC0, 0x00, 0x00, 0x00,
             0x43, 0x34, 0x00, 0x00, 0x42, 0x34, 0x00, 0x00] :: byte list"
  have w: "write_binary Big two_rows ''out/sun_pos_2024.bin'' 2024 work_dir
   = (work_dir\<lparr>fs_nodes := (fs_nodes work_dir)([''work'', ''out''] \<mapsto> Directory,
          [''work'', ''out'', ''sun_pos_2024.bin''] \<mapsto> RegularFile ?f)\<rparr>,
      [ExpectedRowsButGot 527040 2], Inr 2)"
    unfolding write_binary_in_range [OF y mk_out_2024 open_wb_work_dir(1)]
    by (simp add: two_rows_def isleap_def MAGIC_def float32_bytes_big byte_at_def
          astype_float32_one astype_float32_minus_two astype_float32_examples)
  have "read_file (fst (write_binary Big two_rows ''out/sun_pos_2024.bin'' 2024 work_dir))
          ''out/sun_pos_2024.bin''
        = read_file
            ((work_dir\<lparr>fs_nodes := (fs_nodes work_dir)([''work'', ''out''] \<mapsto> Directory,
                 [''work'', ''out'', ''sun_pos_2024.bin''] \<mapsto> RegularFile [])\<rparr>)
             \<lparr>fs_nodes := (fs_nodes (work_dir\<lparr>fs_nodes := (fs_nodes work_dir)
                 ([''work'', ''out''] \<mapsto> Directory,
                  [''work'', ''out'', ''sun_pos_2024.bin''] \<mapsto> RegularFile [])\<rparr>))
                 ([''work'', ''out'', ''sun_pos_2024.bin''] \<mapsto> RegularFile ?f)\<rparr>)
            ''out/sun_pos_2024.bin''"
    unfolding w by simp
  also have "\<dots> = Some ?f"
    by (rule read_file_open(1) [OF open_wb_work_dir(1)])
  finally have r: "read_file (fst (write_binary Big two_rows ''out/sun_pos_2024.bin'' 2024
                     work_dir)) ''out/sun_pos_2024.bin'' = Some ?f" .
  have a: "astype_float32 (azimuth (two_rows ! 0)) = 0x3F800000"
    "astype_float32 (apparent_elevation (two_rows ! 0)) = 0xC0000000"
    by (simp_all add: two_rows_def astype_float32_one astype_float32_minus_two)
  have le: "float32_bytes Little 0x3F800000 @ float32_bytes Little 0xC0000000
            = [0x00, 0x00, 0x80, 0x3F, 0x00, 0x00, 0x00, 0xC0]"
    by (simp add: float32_bytes_little byte_at_def)
  have ne: "[0x3F, 0x80, 0x00, 0x00, 0xC0, 0x00, 0x00, 0x00]
            \<noteq> float32_bytes Little 0x3F800000 @ float32_bytes Little 0xC0000000"
    unfolding le by simp
  show ?thesis
    by (intro conjI) (rule w r a le ne)+
qed

text \<open>
  Claim C5. When the number of rows differs from the number of minutes of the year (the
  year fits int16, the directory can be made and the file opened), \<open>write_binary\<close>
  prints the warning with the expected and the actual number, writes the file all the
  same with one record per actual row, puts the expected number, 366 or 365 times 1440,
  into the count field of the header, and returns the actual number of rows.
\<close>

theorem write_binary_size_mismatch:
  assumes "- 32768 \<le> y" "y \<le> 32767"
    and "makedirs (dirname path) True fs = (fs1, None)"
    and "open_wb path fs1 = Inr (fs2, fd)"
    and "int (length df) \<noteq> (if isleap y then 366 else 365) * 1440"
  shows "\<exists>f. read_file (fst (write_binary host df path y fs)) path = Some f
           \<and> fst (snd (write_binary host df path y fs))
               = [ExpectedRowsButGot ((if isleap y then 366 else 365) * 1440) (length df)]
           \<and> snd (snd (write_binary host df path y fs)) = Inr (length df)
           \<and> length f = 16 + 8 * length df
           \<and> le_int32 (take 4 (drop 8 f)) = (if isleap y then 366 else 365) * 1440
           \<and> drop 16 f
               = concat (map (\<lambda>r. float32_bytes host (astype_float32 (azimuth r))
                               @ float32_bytes host (astype_float32 (apparent_elevation r))) df)"
proof (rule write_binary_file [OF assms(1-4), of host df])
  fix f
  assume w: "write_binary host df path y fs =
       (fs2\<lparr>fs_nodes := (fs_nodes fs2)(fd \<mapsto> RegularFile f)\<rparr>,
        if int (length df) \<noteq> (if isleap y then 366 else 365) * 1440
        then [ExpectedRowsButGot ((if isleap y then 366 else 365) * 1440) (length df)] else [],
        Inr (length df))"
    and r: "read_file (fst (write_binary host df path y fs)) path = Some f"
    and c: "take 4 (drop 8 f) = [byte_at ((if isleap y then 366 else 365) * 1440) 0,
                           byte_at ((if isleap y then 366 else 365) * 1440) 1,
                           byte_at ((if isleap y then 366 else 365) * 1440) 2,
                           byte_at ((if isleap y then 366 else 365) * 1440) 3]"
    and p: "drop 16 f = concat (map (\<lambda>r. float32_bytes host (astype_float32 (azimuth r))
                            @ float32_bytes host (astype_float32 (apparent_elevation r))) df)"
    and l: "length f = 16 + 8 * length df"
  have n: "le_int32 (take 4 (drop 8 f)) = (if isleap y then 366 else 365) * 1440"
    unfolding c by (rule le_int32_pack) simp_all
  have pr: "fst (snd (write_binary host df path y fs))
            = [ExpectedRowsButGot ((if isleap y then 366 else 365) * 1440) (length df)]"
    and rt: "snd (snd (write_binary host df path y fs)) = Inr (length df)"
    unfolding w using assms(5) by simp_all
  show ?thesis
    by (intro exI [of _ f] conjI) (rule r pr rt l n p)+
qed

theorem write_binary_size_mismatch_witness:
  "- 32768 \<le> (2025::int) \<and> (2025::int) \<le> 32767
   \<and> makedirs (dirname ''out/sun_pos_2025.bin'') True work_dir
       = (work_dir\<lparr>fs_nodes := (fs_nodes work_dir)([''work'', ''out''] \<mapsto> Directory)\<rparr>, None)
   \<and> open_wb ''out/sun_pos_2025.bin''
         (work_dir\<lparr>fs_nodes := (fs_nodes work_dir)([''work'', ''out''] \<mapsto> Directory)\<rparr>)
       = Inr (work_dir\<lparr>fs_nodes := (fs_nodes work_dir)([''work'', ''out''] \<mapsto> Directory,
                 [''work'', ''out'', ''sun_pos_2025.bin''] \<mapsto> RegularFile [])\<rparr>,
              [''work'', ''out'', ''sun_pos_2025.bin''])
   \<and> int (length two_rows) \<noteq> (if isleap 2025 then 366 else 365) * 1440
   \<and> (\<exists>f. read_file (fst (write_binary Little two_rows ''out/sun_pos_2025.bin'' 2025 work_dir))
              ''out/sun_pos_2025.bin'' = Some f
          \<and> fst (snd (write_binary Little two_rows ''out/sun_pos_2025.bin'' 2025 work_dir))
              = [ExpectedRowsButGot 525600 2]
          \<and> snd (snd (write_binary Little two_rows ''out/sun_pos_2025.bin'' 2025 work_dir))
              = Inr 2
          \<and> length f = 32
          \<and> le_int32 (take 4 (drop 8 f)) = 525600
          \<and> drop 16 f = [0x00, 0x00, 0x80, 0x3F, 0x00, 0x00, 0x00, 0xC0,
                          0x00, 0x00, 0x34, 0x43, 0x00, 0x00, 0x34, 0x42])"
proof -
  have y: "- 32768 \<le> (2025::int)" "(2025::int) \<le> 32767" by simp_all
  have n: "int (length two_rows) \<noteq> (if isleap 2025 then 366 else 365) * 1440"
    by (simp add: two_rows_def isleap_def)
  from write_binary_size_mismatch [OF y mk_out_2025 open_wb_work_dir(2) n, of Little]
  have "\<exists>f. read_file (fst (write_binary Little two_rows ''out/sun_pos_2025.bin'' 2025 work_dir))
              ''out/sun_pos_2025.bin'' = Some f
          \<and> fst (snd (write_binary Little two_rows ''out/sun_pos_2025.bin'' 2025 work_dir))
              = [ExpectedRowsButGot 525600 2]
          \<and> snd (snd (write_binary Little two_rows ''out/sun_pos_2025.bin'' 2025 work_dir))
              = Inr 2
          \<and> length f = 32
          \<and> le_int32 (take 4 (drop 8 f)) = 525600
          \<and> drop 16 f = [0x00, 0x00, 0x80, 0x3F, 0x00, 0x00, 0x00, 0xC0,
                          0x00, 0x00, 0x34, 0x43, 0x00, 0x00, 0x34, 0x42]"
    by (auto simp add: isleap_def two_rows_def float32_bytes_little byte_at_def
          astype_float32_one astype_float32_minus_two astype_float32_examples)
  then show ?thesis
    using y mk_out_2025 open_wb_work_dir(2) n by (intro conjI)
qed

text \<open>
  Claim C10. \<open>write_binary\<close> packs the year as a signed 16-bit integer. With the
  directory made and the file opened: for a year in -32768 .. 32767, which every 4-digit
  year is, the call returns and the year field of the header reads back as the year; for
  any other year \<open>struct.pack\<close> raises, the call ends with \<open>struct.error\<close> and the
  file holds the six bytes written before, the magic and the version, so no year field,
  wrapped or not, is written.
\<close>

theorem write_binary_year_int16:
  assumes "makedirs (dirname path) True fs = (fs1, None)"
    and "open_wb path fs1 = Inr (fs2, fd)"
  shows "(- 32768 \<le> y \<and> y \<le> 32767 \<longrightarrow>
            (\<exists>f. read_file (fst (write_binary host df path y fs)) path = Some f
                \<and> snd (snd (write_binary host df path y fs)) = Inr (length df)
                \<and> le_int16 (take 2 (drop 6 f)) = y))
         \<and> (y < - 32768 \<or> 32767 < y \<longrightarrow>
              read_file (fst (write_binary host df path y fs)) path = Some (MAGIC @ [1, 0])
              \<and> fst (snd (write_binary host df path y fs)) = []
              \<and> snd (snd (write_binary host df path y fs)) = Inl StructError)"
proof (intro conjI impI)
  assume r: "- 32768 \<le> y \<and> y \<le> 32767"
  then have r1: "- 32768 \<le> y" and r2: "y \<le> 32767" by simp_all
  show "\<exists>f. read_file (fst (write_binary host df path y fs)) path = Some f
          \<and> snd (snd (write_binary host df path y fs)) = Inr (length df)
          \<and> le_int16 (take 2 (drop 6 f)) = y"
  proof (rule write_binary_file [OF r1 r2 assms, of host df])
    fix f
    assume w: "write_binary host df path y fs =
       (fs2\<lparr>fs_nodes := (fs_nodes fs2)(fd \<mapsto> RegularFile f)\<rparr>,
        if int (length df) \<noteq> (if isleap y then 366 else 365) * 1440
        then [ExpectedRowsButGot ((if isleap y then 366 else 365) * 1440) (length df)] else [],
        Inr (length df))"
      and rd: "read_file (fst (write_binary host df path y fs)) path = Some f"
      and yb: "take 2 (drop 6 f) = [byte_at y 0, byte_at y 1]"
    have v: "le_int16 (take 2 (drop 6 f)) = y"
      unfolding yb by (rule le_int16_pack [OF r1 r2])
    have rt: "snd (snd (write_binary host df path y fs)) = Inr (length df)"
      unfolding w by simp
    show ?thesis
      by (intro exI [of _ f] conjI) (rule rd rt v)+
  qed
next
  assume o: "y < - 32768 \<or> 32767 < y"
  note w = write_binary_out_of_range [OF o assms, of host df]
  show "read_file (fst (write_binary host df path y fs)) path = Some (MAGIC @ [1, 0])"
    unfolding w fst_conv by (rule read_file_open(1) [OF assms(2)])
  show "fst (snd (write_binary host df path y fs)) = []"
    and "snd (snd (write_binary host df path y fs)) = Inl StructError"
    unfolding w by simp_all
qed

theorem write_binary_year_int16_witness:
  "makedirs (dirname ''out/sun_pos_2024.bin'') True work_dir
       = (work_dir\<lparr>fs_nodes := (fs_nodes work_dir)([''work'', ''out''] \<mapsto> Directory)\<rparr>, None)
   \<and> open_wb ''out/sun_pos_2024.bin''
         (work_dir\<lparr>fs_nodes := (fs_nodes work_dir)([''work'', ''out''] \<mapsto> Directory)\<rparr>)
       = Inr (work_dir\<lparr>fs_nodes := (fs_nodes work_dir)([''work'', ''out''] \<mapsto> Directory,
                 [''work'', ''out'', ''sun_pos_2024.bin''] \<mapsto> RegularFile [])\<rparr>,
              [''work'', ''out'', ''sun_pos_2024.bin''])
   \<and> (- 32768 \<le> (2024::int) \<and> (2024::int) \<le> 32767)
   \<and> (\<exists>f. read_file (fst (write_binary Little two_rows ''out/sun_pos_2024.bin'' 2024 work_dir))
              ''out/sun_pos_2024.bin'' = Some f
          \<and> snd (snd (write_binary Little two_rows ''out/sun_pos_2024.bin'' 2024 work_dir))
              = Inr 2
          \<and> le_int16 (take 2 (drop 6 f)) = 2024)
   \<and> makedirs (dirname ''out/sun_pos_40000.bin'') True work_dir
       = (work_dir\<lparr>fs_nodes := (fs_nodes work_dir)([''work'', ''out''] \<mapsto> Directory)\<rparr>, None)
   \<and> open_wb ''out/sun_pos_40000.bin''
         (work_dir\<lparr>fs_nodes := (fs_nodes work_dir)([''work'', ''out''] \<mapsto> Directory)\<rparr>)
       = Inr (work_dir\<lparr>fs_nodes := (fs_nodes work_dir)([''work'', ''out''] \<mapsto> Directory,
                 [''work'', ''out'', ''sun_pos_40000.bin''] \<mapsto> RegularFile [])\<rparr>,
              [''work'', ''out'', ''sun_pos_40000.bin''])
   \<and> ((40000::int) < - 32768 \<or> 32767 < (40000::int))
   \<and> read_file (fst (write_binary Little two_rows ''out/sun_pos_40000.bin'' 40000 work_dir))
        ''out/sun_pos_40000.bin'' = Some [0x53, 0x4C, 0x52, 0x44, 1, 0]
   \<and> snd (snd (write_binary Little two_rows ''out/sun_pos_40000.bin'' 40000 work_dir))
       = Inl StructError"
proof -
  have y: "- 32768 \<le> (2024::int) \<and> (2024::int) \<le> 32767" by simp
  have o: "(40000::int) < - 32768 \<or> 32767 < (40000::int)" by simp
  have a: "\<exists>f. read_file (fst (write_binary Little two_rows ''out/sun_pos_2024.bin'' 2024
                               work_dir)) ''out/sun_pos_2024.bin'' = Some f
          \<and> snd (snd (write_binary Little two_rows ''out/sun_pos_2024.bin'' 2024 work_dir))
              = Inr 2
          \<and> le_int16 (take 2 (drop 6 f)) = 2024"
    using write_binary_year_int16 [OF mk_out_2024 open_wb_work_dir(1), of 2024 Little two_rows,
            THEN conjunct1, THEN mp, OF y]
    unfolding length_two_rows .
  note b = write_binary_year_int16 [OF mk_out_40000 open_wb_work_dir(3), of 40000 Little two_rows,
            THEN conjunct2, THEN mp, OF o]
  have b1: "read_file (fst (write_binary Little two_rows ''out/sun_pos_40000.bin'' 40000
                              work_dir)) ''out/sun_pos_40000.bin''
            = Some [0x53, 0x4C, 0x52, 0x44, 1, 0]"
    using b [THEN conjunct1] by (simp add: MAGIC_def)
  note b2 = b [THEN conjunct2, THEN conjunct2]
  show ?thesis
    by (intro conjI)
       (rule mk_out_2024 open_wb_work_dir(1) y [THEN conjunct1] y [THEN conjunct2] a
          mk_out_40000 open_wb_work_dir(3) o b1 b2)+
qed

lemma decode_written:
  assumes m: "take 4 f = MAGIC"
    and v: "take 2 (drop 4 f) = [byte_at 1 0, byte_at 1 1]"
    and yb: "take 2 (drop 6 f) = [byte_at y 0, byte_at y 1]"
    and c: "take 4 (drop 8 f) = [byte_at n 0, byte_at n 1, byte_at n 2, byte_at n 3]"
    and z: "take 4 (drop 12 f) = [0, 0, 0, 0]"
    and p: "drop 16 f = concat (map (\<lambda>r. A r @ B r) df)"
    and a4: "\<And>r. length (A r) = 4" and b4: "\<And>r. length (B r) = 4"
    and yr: "- 32768 \<le> y" "y \<le> 32767"
    and nr: "- 2147483648 \<le> n" "n \<le> 2147483647"
    and len: "int (length df) = n"
  shows "decode f = Inr (\<lparr>hdr_version = 1, hdr_year = y, hdr_totalSampleCount = n,
                           hdr_reserved = 0\<rparr>,
                         map (\<lambda>r. (le_word32 (A r), le_word32 (B r))) df)"
proof -
  have lv: "le_int16 (take 2 (drop 4 f)) = 1"
    unfolding v by (rule le_int16_pack) simp_all
  have ly: "le_int16 (take 2 (drop 6 f)) = y"
    unfolding yb by (rule le_int16_pack [OF yr])
  have lc: "le_int32 (take 4 (drop 8 f)) = n"
    unfolding c by (rule le_int32_pack [OF nr])
  have lz: "le_int32 (take 4 (drop 12 f)) = 0"
    unfolding z by (simp add: le_int32_def le_unsigned_def)
  have l8: "\<And>r. length (A r @ B r) = 8"
    by (simp add: a4 b4)
  have lp: "length (drop 16 f) = 8 * length df"
    unfolding p by (rule length_chunks [OF l8])
  have rec: "(le_word32 (take 4 (drop (8 * i) (drop 16 f))),
              le_word32 (take 4 (drop (8 * i + 4) (drop 16 f))))
             = (le_word32 (A (df ! i)), le_word32 (B (df ! i)))"
    if i: "i < length df" for i
  proof -
    have a: "take 4 (drop (16 + 8 * i) f) = A (df ! i)"
      by (rule record_at(2) [OF p a4 b4 i])
    have b: "take 4 (drop (20 + 8 * i) f) = B (df ! i)"
      by (rule record_at(3) [OF p a4 b4 i])
    have d1: "drop (8 * i) (drop 16 f) = drop (16 + 8 * i) f" by (simp add: add.commute)
    have d2: "drop (8 * i + 4) (drop 16 f) = drop (20 + 8 * i) f" by (simp add: add.commute)
    show ?thesis unfolding d1 d2 a b by simp
  qed
  have samples: "map (\<lambda>i. (le_word32 (take 4 (drop (8 * i) (drop 16 f))),
                          le_word32 (take 4 (drop (8 * i + 4) (drop 16 f)))))
                     [0..<length df] = map (\<lambda>r. (le_word32 (A r), le_word32 (B r))) df"
    by (rule nth_equalityI) (simp_all add: rec del: drop_drop)
  have "length (drop 16 f) mod 8 = 0" "int (length (drop 16 f)) = n * 8"
    "length (drop 16 f) div 8 = length df"
    using len unfolding lp by simp_all
  then show ?thesis
    unfolding decode_def Let_def lv ly lc lz
    using m samples by (simp add: VERSION_def)
qed

text \<open>
  On a little-endian host, reading the file back gives every sample bit for bit as the
  float32 that was written: the little-endian float32 at offset 16 + 8 * i is the azimuth
  of row i converted to float32, the one at offset 20 + 8 * i its elevation, and writing
  the two values read gives the same bytes again. When the data frame has as many rows as
  the year has minutes, the decoder of the format accepts the file and returns the header
  fields and exactly these pairs.
\<close>

lemma write_binary_decode_little:
  assumes "- 32768 \<le> y" "y \<le> 32767"
    and "makedirs (dirname path) True fs = (fs1, None)"
    and "open_wb path fs1 = Inr (fs2, fd)"
  shows "\<exists>f. read_file (fst (write_binary Little df path y fs)) path = Some f
           \<and> (\<forall>i<length df.
                 le_word32 (take 4 (drop (16 + 8 * i) f)) = astype_float32 (azimuth (df ! i))
               \<and> le_word32 (take 4 (drop (20 + 8 * i) f))
                   = astype_float32 (apparent_elevation (df ! i))
               \<and> float32_bytes Little (le_word32 (take 4 (drop (16 + 8 * i) f)))
                    @ float32_bytes Little (le_word32 (take 4 (drop (20 + 8 * i) f)))
                   = take 8 (drop (16 + 8 * i) f))
           \<and> (int (length df) = (if isleap y then 366 else 365) * 1440 \<longrightarrow>
                decode f
                = Inr (\<lparr>hdr_version = 1, hdr_year = y,
                         hdr_totalSampleCount = (if isleap y then 366 else 365) * 1440,
                         hdr_reserved = 0\<rparr>,
                       map (\<lambda>r. (astype_float32 (azimuth r),
                                  astype_float32 (apparent_elevation r))) df))"
proof (rule write_binary_file [OF assms, of Little df])
  fix f
  assume fl: "read_file (fst (write_binary Little df path y fs)) path = Some f"
    and m: "take 4 f = MAGIC"
    and v: "take 2 (drop 4 f) = [byte_at 1 0, byte_at 1 1]"
    and yb: "take 2 (drop 6 f) = [byte_at y 0, byte_at y 1]"
    and c: "take 4 (drop 8 f) = [byte_at ((if isleap y then 366 else 365) * 1440) 0,
                           byte_at ((if isleap y then 366 else 365) * 1440) 1,
                           byte_at ((if isleap y then 366 else 365) * 1440) 2,
                           byte_at ((if isleap y then 366 else 365) * 1440) 3]"
    and z: "take 4 (drop 12 f) = [0, 0, 0, 0]"
    and p: "drop 16 f = concat (map (\<lambda>r. float32_bytes Little (astype_float32 (azimuth r))
                            @ float32_bytes Little (astype_float32 (apparent_elevation r))) df)"
  have recs: "le_word32 (take 4 (drop (16 + 8 * i) f)) = astype_float32 (azimuth (df ! i))
               \<and> le_word32 (take 4 (drop (20 + 8 * i) f))
                   = astype_float32 (apparent_elevation (df ! i))
               \<and> float32_bytes Little (le_word32 (take 4 (drop (16 + 8 * i) f)))
                    @ float32_bytes Little (le_word32 (take 4 (drop (20 + 8 * i) f)))
                   = take 8 (drop (16 + 8 * i) f)"
    if i: "i < length df" for i
  proof -
    have r: "take 8 (drop (16 + 8 * i) f)
             = float32_bytes Little (astype_float32 (azimuth (df ! i)))
               @ float32_bytes Little (astype_float32 (apparent_elevation (df ! i)))"
      by (rule record_at(1) [OF p _ _ i]) (rule length_float32_bytes)+
    have a: "take 4 (drop (16 + 8 * i) f)
             = float32_bytes Little (astype_float32 (azimuth (df ! i)))"
      by (rule record_at(2) [OF p _ _ i]) (rule length_float32_bytes)+
    have b: "take 4 (drop (20 + 8 * i) f)
             = float32_bytes Little (astype_float32 (apparent_elevation (df ! i)))"
      by (rule record_at(3) [OF p _ _ i]) (rule length_float32_bytes)+
    show ?thesis unfolding r a b by (simp add: le_word32_float32_bytes)
  qed
  have dec: "decode f
             = Inr (\<lparr>hdr_version = 1, hdr_year = y,
                      hdr_totalSampleCount = (if isleap y then 366 else 365) * 1440,
                      hdr_reserved = 0\<rparr>,
                    map (\<lambda>r. (astype_float32 (azimuth r),
                               astype_float32 (apparent_elevation r))) df)"
    if n: "int (length df) = (if isleap y then 366 else 365) * 1440"
    using decode_written [OF m v yb c z p length_float32_bytes length_float32_bytes
            assms(1,2) _ _ n]
    by (simp add: le_word32_float32_bytes)
  from recs have all: "\<forall>i<length df.
                 le_word32 (take 4 (drop (16 + 8 * i) f)) = astype_float32 (azimuth (df ! i))
               \<and> le_word32 (take 4 (drop (20 + 8 * i) f))
                   = astype_float32 (apparent_elevation (df ! i))
               \<and> float32_bytes Little (le_word32 (take 4 (drop (16 + 8 * i) f)))
                    @ float32_bytes Little (le_word32 (take 4 (drop (20 + 8 * i) f)))
                   = take 8 (drop (16 + 8 * i) f)"
    by blast
  from dec have imp: "int (length df) = (if isleap y then 366 else 365) * 1440 \<longrightarrow>
                decode f
                = Inr (\<lparr>hdr_version = 1, hdr_year = y,
                         hdr_totalSampleCount = (if isleap y then 366 else 365) * 1440,
                         hdr_reserved = 0\<rparr>,
                       map (\<lambda>r. (astype_float32 (azimuth r),
                                  astype_float32 (apparent_elevation r))) df)"
    by blast
  show ?thesis
    by (intro exI [of _ f] conjI) (rule fl all imp)+
qed

lemma le_word32_big_examples:
  "le_word32 (float32_bytes Big 0x3F800000) = 0x0000803F"
  "le_word32 (float32_bytes Big 0xC0000000) = 0x000000C0"
  by (simp_all add: float32_bytes_big le_word32_def le_unsigned_def byte_at_def)

text \<open>
  Claim C9. The round trip holds only where the host writes its float32 least significant
  byte first: the payload is written in the byte order of the host, and the format, by
  the docstring of the module and by the header, is little-endian. On a big-endian host,
  with a data frame of the 525600 rows of 2025, each azimuth 1.0 and elevation -2.0 (the
  float32 values 3F800000 and C0000000), the call returns 525600 and the decoder accepts
  the file, but the two little-endian float32 values stored in each record are 0000803F
  and 000000C0, not the float32 values of the sample.
\<close>

theorem decode_big_endian_host:
  "\<exists>f. read_file (fst (write_binary Big (constant_rows 525600) ''out/sun_pos_2025.bin'' 2025
                         work_dir)) ''out/sun_pos_2025.bin'' = Some f
      \<and> snd (snd (write_binary Big (constant_rows 525600) ''out/sun_pos_2025.bin'' 2025
                     work_dir)) = Inr 525600
      \<and> map (\<lambda>r. (astype_float32 (azimuth r), astype_float32 (apparent_elevation r)))
            (constant_rows 525600) = replicate 525600 (0x3F800000, 0xC0000000)
      \<and> le_word32 (take 4 (drop 16 f)) = 0x0000803F
      \<and> le_word32 (take 4 (drop 20 f)) = 0x000000C0
      \<and> decode f
         = Inr (\<lparr>hdr_version = 1, hdr_year = 2025, hdr_totalSampleCount = 525600,
                  hdr_reserved = 0\<rparr>, replicate 525600 (0x0000803F, 0x000000C0))
      \<and> (0x0000803F :: float32, 0x000000C0 :: float32) \<noteq> (0x3F800000, 0xC0000000)"
proof (rule write_binary_file
    [OF _ _ mk_out_2025 open_wb_work_dir(2), of 2025 Big "constant_rows 525600"])
  show "- 32768 \<le> (2025 :: int)" "(2025 :: int) \<le> 32767" by simp_all
next
  fix f
  let ?df = "constant_rows 525600"
  let ?row = "\<lparr>time = 0, azimuth = (0x3FF0000000000000 :: float64),
                apparent_elevation = (0xC000000000000000 :: float64)\<rparr>"
  assume w: "write_binary Big ?df ''out/sun_pos_2025.bin'' 2025 work_dir =
       (work_dir\<lparr>fs_nodes := (fs_nodes work_dir)([''work'', ''out''] \<mapsto> Directory,
                 [''work'', ''out'', ''sun_pos_2025.bin''] \<mapsto> RegularFile [])\<rparr>
        \<lparr>fs_nodes := (fs_nodes (work_dir\<lparr>fs_nodes := (fs_nodes work_dir)
                 ([''work'', ''out''] \<mapsto> Directory,
                  [''work'', ''out'', ''sun_pos_2025.bin''] \<mapsto> RegularFile [])\<rparr>))
                 ([''work'', ''out'', ''sun_pos_2025.bin''] \<mapsto> RegularFile f)\<rparr>,
        if int (length ?df) \<noteq> (if isleap 2025 then 366 else 365) * 1440
        then [ExpectedRowsButGot ((if isleap 2025 then 366 else 365) * 1440) (length ?df)] else [],
        Inr (length ?df))"
    and fl: "read_file (fst (write_binary Big ?df ''out/sun_pos_2025.bin'' 2025 work_dir))
               ''out/sun_pos_2025.bin'' = Some f"
    and m: "take 4 f = MAGIC"
    and v: "take 2 (drop 4 f) = [byte_at 1 0, byte_at 1 1]"
    and yb: "take 2 (drop 6 f) = [byte_at 2025 0, byte_at 2025 1]"
    and c: "take 4 (drop 8 f) = [byte_at ((if isleap 2025 then 366 else 365) * 1440) 0,
                           byte_at ((if isleap 2025 then 366 else 365) * 1440) 1,
                           byte_at ((if isleap 2025 then 366 else 365) * 1440) 2,
                           byte_at ((if isleap 2025 then 366 else 365) * 1440) 3]"
    and z: "take 4 (drop 12 f) = [0, 0, 0, 0]"
    and p: "drop 16 f = concat (map (\<lambda>r. float32_bytes Big (astype_float32 (azimuth r))
                            @ float32_bytes Big (astype_float32 (apparent_elevation r))) ?df)"
  have len: "length ?df = 525600" by (simp only: constant_rows_def length_replicate)
  have leap: "\<not> isleap 2025" by (simp add: isleap_def)
  have n: "int (length ?df) = (if isleap 2025 then 366 else 365) * 1440"
    unfolding len using leap by simp
  have nth0: "?df ! 0 = ?row"
    unfolding constant_rows_def by (rule nth_replicate) simp
  have rt: "snd (snd (write_binary Big ?df ''out/sun_pos_2025.bin'' 2025 work_dir)) = Inr 525600"
    unfolding w len by simp
  have vals: "map (\<lambda>r. (astype_float32 (azimuth r), astype_float32 (apparent_elevation r))) ?df
              = replicate 525600 (0x3F800000, 0xC0000000)"
    by (simp only: constant_rows_def map_replicate df_row.simps astype_float32_one
          astype_float32_minus_two)
  have i0: "0 < length ?df" unfolding len by simp
  have a: "take 4 (drop (16 + 8 * 0) f) = float32_bytes Big (astype_float32 (azimuth (?df ! 0)))"
    by (rule record_at(2) [OF p _ _ i0]) (rule length_float32_bytes)+
  have b: "take 4 (drop (20 + 8 * 0) f)
           = float32_bytes Big (astype_float32 (apparent_elevation (?df ! 0)))"
    by (rule record_at(3) [OF p _ _ i0]) (rule length_float32_bytes)+
  have a': "le_word32 (take 4 (drop 16 f)) = 0x0000803F"
    using a unfolding nth0 by (simp add: astype_float32_one le_word32_big_examples)
  have b': "le_word32 (take 4 (drop 20 f)) = 0x000000C0"
    using b unfolding nth0 by (simp add: astype_float32_minus_two le_word32_big_examples)
  have "decode f
        = Inr (\<lparr>hdr_version = 1, hdr_year = 2025,
                 hdr_totalSampleCount = (if isleap 2025 then 366 else 365) * 1440,
                 hdr_reserved = 0\<rparr>,
               map (\<lambda>r. (le_word32 (float32_bytes Big (astype_float32 (azimuth r))),
                          le_word32 (float32_bytes Big (astype_float32 (apparent_elevation r)))))
                 ?df)"
    by (rule decode_written [OF m v yb c z p length_float32_bytes length_float32_bytes _ _ _ _ n])
       simp_all
  also have "map (\<lambda>r. (le_word32 (float32_bytes Big (astype_float32 (azimuth r))),
                        le_word32 (float32_bytes Big (astype_float32 (apparent_elevation r)))))
               ?df = replicate 525600 (0x0000803F, 0x000000C0)"
    by (simp only: constant_rows_def map_replicate df_row.simps astype_float32_one
          astype_float32_minus_two le_word32_big_examples)
  finally have d: "decode f
         = Inr (\<lparr>hdr_version = 1, hdr_year = 2025, hdr_totalSampleCount = 525600,
                  hdr_reserved = 0\<rparr>, replicate 525600 (0x0000803F, 0x000000C0))"
    using leap by simp
  have ne: "(0x0000803F :: float32, 0x000000C0 :: float32) \<noteq> (0x3F800000, 0xC0000000)"
    by simp
  show ?thesis
    by (intro exI [of _ f] conjI) (rule fl rt vals a' b' d ne)+
qed

subsection \<open>Time zones and the position function\<close>


lemma tz_localize_sound:
  assumes "tz_localize tz w = Inr t"
  shows "t + utcoffset tz t = w"
proof -
  define c where "c = remdups (filter (\<lambda>t. t + utcoffset tz t = w)
              (map (\<lambda>off. w - off) (tz_first tz # map snd (tz_transitions tz))))"
  have l: "tz_localize tz w
           = (case c of [] \<Rightarrow> Inl NonExistentTimeError | [t] \<Rightarrow> Inr t
              | _ \<Rightarrow> Inl AmbiguousTimeError)"
    unfolding tz_localize_def c_def ..
  have "c = [t]"
    using assms unfolding l by (cases c; cases "tl c") auto
  then have "t \<in> set c" by simp
  then have "t \<in> set (filter (\<lambda>t. t + utcoffset tz t = w)
              (map (\<lambda>off. w - off) (tz_first tz # map snd (tz_transitions tz))))"
    unfolding c_def by (simp only: set_remdups)
  then show ?thesis by (simp only: set_filter mem_Collect_eq)
qed

lemma Timestamp_Inr:
  assumes "Timestamp tzdb w zone = Inr t" and "tzdb zone = Some tz"
  shows "tz_localize tz w = Inr t"
  using assms by (simp add: Timestamp_def)

lemma get_solarposition_Inr:
  "get_solarposition sp ts lat lon alt = Inr rows \<Longrightarrow>
   map fst rows = ts \<and> (\<forall>(t, r)\<in>set rows. sp t lat lon alt = Inr r)"
proof (induction ts arbitrary: rows)
  case Nil
  then show ?case by simp
next
  case (Cons t ts)
  then show ?case by (auto split: sum.splits)
qed

lemma get_solarposition_Inl:
  "get_solarposition sp ts lat lon alt = Inl e \<Longrightarrow> \<exists>t\<in>set ts. sp t lat lon alt = Inl e"
proof (induction ts)
  case Nil
  then show ?case by simp
next
  case (Cons t ts)
  then show ?case by (auto split: sum.splits)
qed

lemma get_solarposition_all:
  "(\<And>t. t \<in> set ts \<Longrightarrow> sp t lat lon alt = Inr (g t)) \<Longrightarrow>
   get_solarposition sp ts lat lon alt = Inr (map (\<lambda>t. (t, g t)) ts)"
  by (induction ts) simp_all

lemma get_solarposition_first_error:
  "sp t lat lon alt = Inl e \<Longrightarrow> (\<And>u. u \<in> set us \<Longrightarrow> sp u lat lon alt = Inr (g u)) \<Longrightarrow>
   get_solarposition sp (us @ t # ts) lat lon alt = Inl e"
  by (induction us) simp_all

lemma sum_months:
  "sum_list (take 11 (days_in_month year)) = (if isleap year then 335 else 334)"
  by (simp add: days_in_month_def)

lemma ymd_minute_last:
  "ymd_minute year 12 31 23 59
   = ymd_minute year 1 1 0 0 + (if isleap year then 366 else 365) * 1440 - 1"
  by (simp add: ymd_minute_def sum_months)

lemma utcoffset_New_York:
  "utcoffset America_New_York t =
     (if t < 28500900 then - 300 else if t < 28843560 then - 240
      else if t < 29025060 then - 300 else if t < 29367720 then - 240 else - 300)"
  by (simp add: utcoffset_def America_New_York_def)

lemma utcoffset_Moscow:
  "utcoffset Europe_Moscow t = (if t < 21686340 then 180 else 240)"
  by (simp add: utcoffset_def Europe_Moscow_def)

lemma ymd_2024: "ymd_minute 2024 1 1 0 0 = 28401120"
  by (simp add: ymd_minute_def days_before_year_def)

lemma ymd_2025: "ymd_minute 2025 1 1 0 0 = 28928160"
  by (simp add: ymd_minute_def days_before_year_def)

lemma ymd_2011: "ymd_minute 2011 1 1 0 0 = 21564000"
  by (simp add: ymd_minute_def days_before_year_def)

lemma ymd_2012: "ymd_minute 2012 1 1 0 0 = 22089600"
  by (simp add: ymd_minute_def days_before_year_def)

lemma leap_years: "isleap 2024" "\<not> isleap 2025" "\<not> isleap 2011" "isleap 2012"
  by (simp_all add: isleap_def)

lemma tz_fields:
  "tz_first America_New_York = - 300"
  "tz_transitions America_New_York
   = [(28500900, - 240), (28843560, - 300), (29025060, - 240), (29367720, - 300)]"
  "tz_first Europe_Moscow = 180"
  "tz_transitions Europe_Moscow = [(21686340, 240)]"
  by (simp_all add: America_New_York_def Europe_Moscow_def)

lemma tz_localize_New_York_2024:
  "tz_localize America_New_York 28401120 = Inr 28401420"
  "tz_localize America_New_York 28928159 = Inr 28928459"
  by (simp_all add: tz_localize_def utcoffset_New_York tz_fields)

lemma tz_localize_New_York_2025:
  "tz_localize America_New_York 28928160 = Inr 28928460"
  "tz_localize America_New_York 29453759 = Inr 29454059"
  by (simp_all add: tz_localize_def utcoffset_New_York tz_fields)

lemma tz_localize_Moscow_2011:
  "tz_localize Europe_Moscow 21564000 = Inr 21563820"
  "tz_localize Europe_Moscow 22089599 = Inr 22089359"
  by (simp_all add: tz_localize_def utcoffset_Moscow tz_fields)

lemma tz_localize_Moscow_2012:
  "tz_localize Europe_Moscow 22089600 = Inr 22089360"
  "tz_localize Europe_Moscow 22616639 = Inr 22616399"
  by (simp_all add: tz_localize_def utcoffset_Moscow tz_fields)


lemma compute_solar_positions_Inr:
  assumes "compute_solar_positions tzdb sp lat lon alt zone year = Inr df"
    and "tzdb zone = Some tz"
  obtains start end' where
    "tz_localize tz (ymd_minute year 1 1 0 0) = Inr start"
    "tz_localize tz (ymd_minute year 12 31 23 59) = Inr end'"
    "map time df = [start..end']"
    "\<And>r. r \<in> set df \<Longrightarrow>
       \<exists>p. sp (time r) lat lon alt = Inr p \<and> azimuth r = sp_azimuth p
           \<and> apparent_elevation r = sp_apparent_elevation p"
proof -
  from assms obtain start where s: "tz_localize tz (ymd_minute year 1 1 0 0) = Inr start"
    by (cases "tz_localize tz (ymd_minute year 1 1 0 0)")
       (simp_all add: compute_solar_positions_def Timestamp_def)
  from assms s obtain end' where e: "tz_localize tz (ymd_minute year 12 31 23 59) = Inr end'"
    by (cases "tz_localize tz (ymd_minute year 12 31 23 59)")
       (simp_all add: compute_solar_positions_def Timestamp_def)
  from assms s e obtain rows where
    g: "get_solarposition sp [start..end'] lat lon alt = Inr rows"
    and d: "df = map (\<lambda>(t, r). \<lparr>time = t, azimuth = sp_azimuth r,
                                  apparent_elevation = sp_apparent_elevation r\<rparr>) rows"
    by (cases "get_solarposition sp [start..end'] lat lon alt")
       (simp_all add: compute_solar_positions_def Timestamp_def date_range_def)
  from get_solarposition_Inr [OF g]
  have f: "map fst rows = [start..end']"
    and a: "\<forall>(t, r)\<in>set rows. sp t lat lon alt = Inr r" by simp_all
  have t: "map time df = [start..end']"
    unfolding d f [symmetric] by (simp add: case_prod_beta comp_def)
  have "\<exists>p. sp (time r) lat lon alt = Inr p \<and> azimuth r = sp_azimuth p
           \<and> apparent_elevation r = sp_apparent_elevation p" if "r \<in> set df" for r
    using that a unfolding d by auto
  with s e t show ?thesis by (rule that)
qed

lemma compute_solar_positions_success:
  assumes "tzdb zone = Some tz"
    and "tz_localize tz (ymd_minute year 1 1 0 0) = Inr start"
    and "tz_localize tz (ymd_minute year 12 31 23 59) = Inr end'"
    and "\<And>t. start \<le> t \<Longrightarrow> t \<le> end' \<Longrightarrow> sp t lat lon alt = Inr (g t)"
  shows "compute_solar_positions tzdb sp lat lon alt zone year
         = Inr (map (\<lambda>t. \<lparr>time = t, azimuth = sp_azimuth (g t),
                           apparent_elevation = sp_apparent_elevation (g t)\<rparr>) [start..end'])"
proof -
  have "get_solarposition sp [start..end'] lat lon alt = Inr (map (\<lambda>t. (t, g t)) [start..end'])"
    by (rule get_solarposition_all) (simp add: assms(4))
  then show ?thesis
    using assms(1-3)
    by (simp add: compute_solar_positions_def Timestamp_def date_range_def comp_def)
qed

lemma compute_solar_positions_error:
  assumes "tzdb zone = Some tz"
    and "tz_localize tz (ymd_minute year 1 1 0 0) = Inr start"
    and "tz_localize tz (ymd_minute year 12 31 23 59) = Inr end'"
    and "start \<le> t" "t \<le> end'"
    and "sp t lat lon alt = Inl e"
    and "\<And>u. start \<le> u \<Longrightarrow> u < t \<Longrightarrow> sp u lat lon alt = Inr (g u)"
  shows "compute_solar_positions tzdb sp lat lon alt zone year = Inl e"
proof -
  have split: "[start..end'] = [start..t - 1] @ t # [t + 1..end']"
    using assms(4,5) by (rule upto_split3)
  have "get_solarposition sp ([start..t - 1] @ t # [t + 1..end']) lat lon alt = Inl e"
    using assms(6)
    by (rule get_solarposition_first_error
              [where sp = sp and t = t and e = e and us = "[start..t - 1]" and g = g])
       (simp add: assms(7))
  then show ?thesis
    using assms(1-3) unfolding split [symmetric]
    by (simp add: compute_solar_positions_def Timestamp_def date_range_def)
qed

subsection \<open>The series of \<open>compute_solar_positions\<close>\<close>


lemma nth_map_upto: "a + int k \<le> b \<Longrightarrow> map f [a..b] ! k = f (a + int k)"
proof -
  assume b: "a + int k \<le> b"
  then have "k < length [a..b]" by simp
  then have "map f [a..b] ! k = f ([a..b] ! k)" by (rule nth_map)
  then show ?thesis unfolding nth_upto [OF b] .
qed

lemma tzdata_lookup:
  "tzdata ''America/New_York'' = Some America_New_York"
  "tzdata ''Europe/Moscow'' = Some Europe_Moscow"
  by (simp_all add: tzdata_def)

lemma ymd_last_values:
  "ymd_minute 2024 12 31 23 59 = 28928159"
  "ymd_minute 2025 12 31 23 59 = 29453759"
  "ymd_minute 2011 12 31 23 59 = 22089599"
  "ymd_minute 2012 12 31 23 59 = 22616639"
  by (simp_all add: ymd_minute_last ymd_2024 ymd_2025 ymd_2011 ymd_2012 leap_years)

lemma length_fixed_rows: "length (fixed_rows a b) = nat (b - a + 1)"
  by (simp add: fixed_rows_def)

lemma nth_fixed_rows:
  "a + int k \<le> b \<Longrightarrow>
   fixed_rows a b ! k = \<lparr>time = a + int k, azimuth = 0x4066800000000000,
                           apparent_elevation = 0x4046800000000000\<rparr>"
  unfolding fixed_rows_def by (rule nth_map_upto)

lemma length_nan_rows: "length (nan_rows a b) = nat (b - a + 1)"
  by (simp add: nan_rows_def)

lemma nth_nan_rows:
  "a + int k \<le> b \<Longrightarrow>
   nan_rows a b ! k = \<lparr>time = a + int k, azimuth = 0x7FF8000000000000,
                         apparent_elevation = 0x4046800000000000\<rparr>"
  unfolding nan_rows_def by (rule nth_map_upto)

lemma compute_fixed:
  assumes "tzdata zone = Some tz"
    and "tz_localize tz (ymd_minute year 1 1 0 0) = Inr start"
    and "tz_localize tz (ymd_minute year 12 31 23 59) = Inr end'"
  shows "compute_solar_positions tzdata fixed_position lat lon alt zone year
         = Inr (fixed_rows start end')"
  unfolding fixed_rows_def
  using compute_solar_positions_success
      [where tzdb = tzdata and sp = fixed_position and lat = lat and lon = lon and alt = alt
         and g = "\<lambda>t. \<lparr>sp_apparent_zenith = 0x4046800000000000,
                       sp_zenith = 0x4046800000000000,
                       sp_apparent_elevation = 0x4046800000000000,
                       sp_elevation = 0x4046800000000000,
                       sp_azimuth = 0x4066800000000000, sp_equation_of_time = 0\<rparr>",
       OF assms]
  by (simp add: fixed_position_def)

lemma compute_nan:
  assumes "tzdata zone = Some tz"
    and "tz_localize tz (ymd_minute year 1 1 0 0) = Inr start"
    and "tz_localize tz (ymd_minute year 12 31 23 59) = Inr end'"
  shows "compute_solar_positions tzdata nan_position lat lon alt zone year
         = Inr (nan_rows start end')"
  unfolding nan_rows_def
  using compute_solar_positions_success
      [where tzdb = tzdata and sp = nan_position and lat = lat and lon = lon and alt = alt
         and g = "\<lambda>t. \<lparr>sp_apparent_zenith = 0x4046800000000000,
                       sp_zenith = 0x4046800000000000,
                       sp_apparent_elevation = 0x4046800000000000,
                       sp_elevation = 0x4046800000000000,
                       sp_azimuth = 0x7FF8000000000000, sp_equation_of_time = 0\<rparr>",
       OF assms]
  by (simp add: nan_position_def)

lemma new_york_2024:
  "compute_solar_positions tzdata fixed_position lat lon alt ''America/New_York'' 2024
   = Inr (fixed_rows 28401420 28928459)"
  by (rule compute_fixed [OF tzdata_lookup(1)])
     (simp_all only: ymd_2024 ymd_last_values tz_localize_New_York_2024)

lemma localized_values:
  "tz_localize America_New_York (ymd_minute 2024 1 1 0 0) = Inr 28401420"
  "tz_localize America_New_York (ymd_minute 2024 12 31 23 59) = Inr 28928459"
  "tz_localize America_New_York (ymd_minute 2025 1 1 0 0) = Inr 28928460"
  "tz_localize America_New_York (ymd_minute 2025 12 31 23 59) = Inr 29454059"
  "tz_localize Europe_Moscow (ymd_minute 2011 1 1 0 0) = Inr 21563820"
  "tz_localize Europe_Moscow (ymd_minute 2011 12 31 23 59) = Inr 22089359"
  "tz_localize Europe_Moscow (ymd_minute 2012 1 1 0 0) = Inr 22089360"
  "tz_localize Europe_Moscow (ymd_minute 2012 12 31 23 59) = Inr 22616399"
  by (simp_all only: ymd_2024 ymd_2025 ymd_2011 ymd_2012 ymd_last_values
        tz_localize_New_York_2024 tz_localize_New_York_2025
        tz_localize_Moscow_2011 tz_localize_Moscow_2012)

lemma wall_index_new_york_2024:
  "wall_index America_New_York 2024 t = t + utcoffset America_New_York t - 28401120"
  by (simp add: wall_index_def ymd_2024)

lemma no_row_at_index_99480: "wall_index America_New_York 2024 t \<noteq> 99480"
  unfolding wall_index_new_york_2024 utcoffset_New_York by (simp split: if_splits)

text \<open>
  Claim C3. The code breaks it for the city of the script: \<open>pd.date_range\<close> steps in
  elapsed time, so the rows follow the index of the format,
  \<open>(dayOfYear - 1) * 1440 + minuteOfDay\<close> on the local wall clock, only until the clocks
  change. In the series of Manhattan for 2024, which has the 527040 rows of the year, the
  row at position 100000 has the index 100060; no row has the index 99480 (March 10,
  02:00, which the zone skips); and the rows at positions 442080 and 442140 are two
  different instants with the same index 442140 (day 308, minute 60: November 3, 01:00,
  before and after the clocks go back).
\<close>

theorem manhattan_2024_repeated_index:
  "compute_solar_positions tzdata fixed_position 40.7826 (- 73.9656) 33 ''America/New_York'' 2024
     = Inr (fixed_rows 28401420 28928459)
   \<and> length (fixed_rows 28401420 28928459) = 527040
   \<and> wall_index America_New_York 2024 (time (fixed_rows 28401420 28928459 ! 100000)) = 100060
   \<and> filter (\<lambda>r. wall_index America_New_York 2024 (time r) = 99480)
        (fixed_rows 28401420 28928459) = []
   \<and> time (fixed_rows 28401420 28928459 ! 442080) \<noteq> time (fixed_rows 28401420 28928459 ! 442140)
   \<and> wall_index America_New_York 2024 (time (fixed_rows 28401420 28928459 ! 442080)) = 442140
   \<and> wall_index America_New_York 2024 (time (fixed_rows 28401420 28928459 ! 442140)) = 442140
   \<and> dayOfYear America_New_York 2024 (time (fixed_rows 28401420 28928459 ! 442080)) = 308
   \<and> minuteOfDay America_New_York 2024 (time (fixed_rows 28401420 28928459 ! 442080)) = 60
   \<and> dayOfYear America_New_York 2024 (time (fixed_rows 28401420 28928459 ! 442140)) = 308
   \<and> minuteOfDay America_New_York 2024 (time (fixed_rows 28401420 28928459 ! 442140)) = 60"
proof -
  have a: "fixed_rows 28401420 28928459 ! 442080
           = \<lparr>time = 28843500, azimuth = 0x4066800000000000,
               apparent_elevation = 0x4046800000000000\<rparr>"
    using nth_fixed_rows [of 28401420 442080 28928459] by simp
  have b: "fixed_rows 28401420 28928459 ! 442140
           = \<lparr>time = 28843560, azimuth = 0x4066800000000000,
               apparent_elevation = 0x4046800000000000\<rparr>"
    using nth_fixed_rows [of 28401420 442140 28928459] by simp
  have c: "fixed_rows 28401420 28928459 ! 100000
           = \<lparr>time = 28501420, azimuth = 0x4066800000000000,
               apparent_elevation = 0x4046800000000000\<rparr>"
    using nth_fixed_rows [of 28401420 100000 28928459] by simp
  have gap: "filter (\<lambda>r. wall_index America_New_York 2024 (time r) = 99480)
               (fixed_rows 28401420 28928459) = []"
    unfolding filter_empty_conv using no_row_at_index_99480 by blast
  have rest: "length (fixed_rows 28401420 28928459) = 527040
   \<and> wall_index America_New_York 2024 (time (fixed_rows 28401420 28928459 ! 100000)) = 100060
   \<and> time (fixed_rows 28401420 28928459 ! 442080) \<noteq> time (fixed_rows 28401420 28928459 ! 442140)
   \<and> wall_index America_New_York 2024 (time (fixed_rows 28401420 28928459 ! 442080)) = 442140
   \<and> wall_index America_New_York 2024 (time (fixed_rows 28401420 28928459 ! 442140)) = 442140
   \<and> dayOfYear America_New_York 2024 (time (fixed_rows 28401420 28928459 ! 442080)) = 308
   \<and> minuteOfDay America_New_York 2024 (time (fixed_rows 28401420 28928459 ! 442080)) = 60
   \<and> dayOfYear America_New_York 2024 (time (fixed_rows 28401420 28928459 ! 442140)) = 308
   \<and> minuteOfDay America_New_York 2024 (time (fixed_rows 28401420 28928459 ! 442140)) = 60"
    unfolding a b c length_fixed_rows
    by (simp add: dayOfYear_def minuteOfDay_def wall_index_def utcoffset_New_York ymd_2024)
  show ?thesis
    using new_york_2024 [of "40.7826" "- 73.9656" 33] gap rest by simp
qed

subsection \<open>Local days\<close>


lemma div_1440_eq: "((x::int) div 1440 = q) = (q * 1440 \<le> x \<and> x < q * 1440 + 1440)"
proof -
  have d: "x = 1440 * (x div 1440) + x mod 1440" by simp
  have m: "0 \<le> x mod 1440" "x mod 1440 < 1440" by simp_all
  show ?thesis
  proof
    assume "x div 1440 = q"
    then show "q * 1440 \<le> x \<and> x < q * 1440 + 1440" using d m by linarith
  next
    assume "q * 1440 \<le> x \<and> x < q * 1440 + 1440"
    then show "x div 1440 = q" using d m by linarith
  qed
qed

lemma mod_1440_eq: "0 \<le> m \<Longrightarrow> m < 1440 \<Longrightarrow> ((q::int) * 1440 + m) mod 1440 = m"
  by simp

lemma filter_upto_interval:
  assumes p: "\<And>t. s \<le> t \<Longrightarrow> t \<le> e \<Longrightarrow> P t = (a \<le> t \<and> t \<le> b)"
    and "s \<le> a" "b \<le> e"
  shows "filter P [s..e] = [a..b]"
proof (rule sorted_distinct_set_unique)
  show "sorted (filter P [s..e])"
    using sorted_filter [where f = "\<lambda>x. x" and xs = "[s..e]" and P = P] by simp
  show "distinct (filter P [s..e])" by (rule distinct_filter) (rule distinct_upto)
  show "sorted [a..b]" by (rule sorted_upto)
  show "distinct [a..b]" by (rule distinct_upto)
  show "set (filter P [s..e]) = set [a..b]"
    using assms by auto
qed

lemma filter_upto_none:
  assumes "\<And>t. s \<le> t \<Longrightarrow> t \<le> e \<Longrightarrow> \<not> P t"
  shows "filter P [s..e] = []"
  using assms by (simp add: filter_empty_conv del: upto_rec_numeral)

lemma filter_rows:
  "map time (filter (\<lambda>r. P (time r)) df) = filter P (map time df)"
  by (simp add: filter_map comp_def)

lemma day_new_york_2024:
  "dayOfYear America_New_York 2024 t
   = (t + utcoffset America_New_York t - 28401120) div 1440 + 1"
  "minuteOfDay America_New_York 2024 t
   = (t + utcoffset America_New_York t - 28401120) mod 1440"
  by (simp_all add: dayOfYear_def minuteOfDay_def wall_index_def ymd_2024)

lemma filter_fixed_rows:
  "map time (filter (\<lambda>r. P (time r)) (fixed_rows s e)) = filter P [s..e]"
proof -
  have "map time (fixed_rows s e) = [s..e]"
    unfolding fixed_rows_def by (simp add: comp_def del: upto_rec_numeral)
  then show ?thesis
    using filter_rows [where P = P and df = "fixed_rows s e"] by simp
qed

lemma length_filter_fixed_rows:
  "length (filter (\<lambda>r. P (time r)) (fixed_rows s e)) = length (filter P [s..e])"
  using arg_cong [OF filter_fixed_rows [where P = P and s = s and e = e], of length] by simp

lemma day_70_new_york:
  "(dayOfYear America_New_York 2024 t = 70) = (28500780 \<le> t \<and> t \<le> 28502159)"
proof -
  have "(dayOfYear America_New_York 2024 t = 70)
        = ((t + utcoffset America_New_York t - 28401120) div 1440 = 69)"
    by (simp add: day_new_york_2024)
  also have "\<dots> = (28500780 \<le> t \<and> t \<le> 28502159)"
    unfolding div_1440_eq utcoffset_New_York by (simp split: if_splits) linarith
  finally show ?thesis .
qed

lemma day_308_new_york:
  "(dayOfYear America_New_York 2024 t = 308) = (28843440 \<le> t \<and> t \<le> 28844939)"
proof -
  have "(dayOfYear America_New_York 2024 t = 308)
        = ((t + utcoffset America_New_York t - 28401120) div 1440 = 307)"
    by (simp add: day_new_york_2024)
  also have "\<dots> = (28843440 \<le> t \<and> t \<le> 28844939)"
    unfolding div_1440_eq utcoffset_New_York by (simp split: if_splits) linarith
  finally show ?thesis .
qed

lemma no_row_at_0200:
  "\<not> (dayOfYear America_New_York 2024 t = 70 \<and> minuteOfDay America_New_York 2024 t = 120)"
proof
  assume h: "dayOfYear America_New_York 2024 t = 70 \<and> minuteOfDay America_New_York 2024 t = 120"
  let ?x = "t + utcoffset America_New_York t - 28401120"
  from h have "?x div 1440 = 69" "?x mod 1440 = 120"
    by (simp_all add: day_new_york_2024)
  moreover have "?x = 1440 * (?x div 1440) + ?x mod 1440" by simp
  ultimately have "?x = 99480" by simp
  then show False
    unfolding utcoffset_New_York by (simp split: if_splits)
qed

text \<open>
  Claim C4. The code breaks it for the city of the script, by the same stepping in
  elapsed time as for claim C3: \<open>compute_solar_positions\<close> localises only the two ends
  of the year and resolves no wall-clock minute in between (the sibling
  \<open>get_sunrise_sunset\<close> of \<open>spa.py\<close> does localise its dates, with
  \<open>nonexistent='shift_forward'\<close>). In the series of Manhattan for 2024 the local day of
  March 10 (day 70) has 1380 rows and that of November 3 (day 308) has 1500; no row has
  the wall-clock time 02:00 of March 10, which the zone skips; and the wall-clock time
  01:00 of November 3, which the zone repeats, is that of two rows, 442080 and 442140, one
  for each offset.
\<close>

theorem manhattan_2024_transition_days:
  "compute_solar_positions tzdata fixed_position 40.7826 (- 73.9656) 33 ''America/New_York'' 2024
     = Inr (fixed_rows 28401420 28928459)
   \<and> length (filter (\<lambda>r. dayOfYear America_New_York 2024 (time r) = 70)
               (fixed_rows 28401420 28928459)) = 1380
   \<and> length (filter (\<lambda>r. dayOfYear America_New_York 2024 (time r) = 308)
               (fixed_rows 28401420 28928459)) = 1500
   \<and> filter (\<lambda>r. dayOfYear America_New_York 2024 (time r) = 70
                 \<and> minuteOfDay America_New_York 2024 (time r) = 120)
        (fixed_rows 28401420 28928459) = []
   \<and> time (fixed_rows 28401420 28928459 ! 442080) = 28843500
   \<and> time (fixed_rows 28401420 28928459 ! 442140) = 28843560
   \<and> utcoffset America_New_York 28843500 = - 240
   \<and> utcoffset America_New_York 28843560 = - 300
   \<and> dayOfYear America_New_York 2024 28843500 = 308
   \<and> minuteOfDay America_New_York 2024 28843500 = 60
   \<and> dayOfYear America_New_York 2024 28843560 = 308
   \<and> minuteOfDay America_New_York 2024 28843560 = 60"
proof -
  have d70: "filter (\<lambda>t. dayOfYear America_New_York 2024 t = 70) [28401420..28928459]
             = [28500780..28502159]"
    by (rule filter_upto_interval) (simp_all add: day_70_new_york)
  have d308: "filter (\<lambda>t. dayOfYear America_New_York 2024 t = 308) [28401420..28928459]
              = [28843440..28844939]"
    by (rule filter_upto_interval) (simp_all add: day_308_new_york)
  have l70: "length (filter (\<lambda>r. dayOfYear America_New_York 2024 (time r) = 70)
               (fixed_rows 28401420 28928459)) = 1380"
    unfolding length_filter_fixed_rows [where P = "\<lambda>t. dayOfYear America_New_York 2024 t = 70"]
      d70 by simp
  have l308: "length (filter (\<lambda>r. dayOfYear America_New_York 2024 (time r) = 308)
               (fixed_rows 28401420 28928459)) = 1500"
    unfolding length_filter_fixed_rows [where P = "\<lambda>t. dayOfYear America_New_York 2024 t = 308"]
      d308 by simp
  have none: "filter (\<lambda>r. dayOfYear America_New_York 2024 (time r) = 70
                 \<and> minuteOfDay America_New_York 2024 (time r) = 120)
        (fixed_rows 28401420 28928459) = []"
    unfolding filter_empty_conv using no_row_at_0200 by blast
  have a: "time (fixed_rows 28401420 28928459 ! 442080) = 28843500"
    using nth_fixed_rows [of 28401420 442080 28928459] by simp
  have b: "time (fixed_rows 28401420 28928459 ! 442140) = 28843560"
    using nth_fixed_rows [of 28401420 442140 28928459] by simp
  have o: "utcoffset America_New_York 28843500 = - 240"
    "utcoffset America_New_York 28843560 = - 300"
    by (simp_all add: utcoffset_New_York)
  have w: "dayOfYear America_New_York 2024 28843500 = 308"
    "minuteOfDay America_New_York 2024 28843500 = 60"
    "dayOfYear America_New_York 2024 28843560 = 308"
    "minuteOfDay America_New_York 2024 28843560 = 60"
    by (simp_all add: day_new_york_2024 o)
  show ?thesis
    by (intro conjI) (rule new_york_2024 l70 l308 none a b o w)+
qed

subsection \<open>Coordinates\<close>


text \<open>
  Claim C7, as the spec states it, fails: \<open>compute_solar_positions\<close> checks no
  coordinate. With the latitude 91, the longitude -200 and the altitude -1000, all out of
  range, it calls the position function for every minute of the year and returns the
  527040 rows.
\<close>

theorem out_of_range_location_accepted:
  "(90 :: real) < 91 \<and> (- 200 :: real) < - 180 \<and> (- 1000 :: real) < - 500
   \<and> compute_solar_positions tzdata fixed_position 91 (- 200) (- 1000) ''America/New_York'' 2024
       = Inr (fixed_rows 28401420 28928459)
   \<and> length (fixed_rows 28401420 28928459) = 527040"
  by (simp add: new_york_2024 length_fixed_rows)

text \<open>
  Claim C7, amended. \<open>compute_solar_positions\<close> makes no check of the latitude, the
  longitude or the altitude, and no exception of the script is an InvalidLocation: the
  three values go unchanged to the position function, for every instant of the series,
  and whenever the position function returns a value for them at every instant the series
  is returned, whatever the coordinates are. When the call fails, the exception is one of
  the time zone or one that the position function raised for these coordinates.
\<close>

theorem compute_solar_positions_any_location:
  assumes "tzdb zone = Some tz"
    and "tz_localize tz (ymd_minute year 1 1 0 0) = Inr start"
    and "tz_localize tz (ymd_minute year 12 31 23 59) = Inr end'"
  shows "((\<forall>t. start \<le> t \<and> t \<le> end' \<longrightarrow> sp t lat lon alt = Inr (g t)) \<longrightarrow>
          compute_solar_positions tzdb sp lat lon alt zone year
          = Inr (map (\<lambda>t. \<lparr>time = t, azimuth = sp_azimuth (g t),
                            apparent_elevation = sp_apparent_elevation (g t)\<rparr>) [start..end']))
       \<and> (\<forall>e. compute_solar_positions tzdb sp lat lon alt zone year = Inl e \<longrightarrow>
              (\<exists>t. start \<le> t \<and> t \<le> end' \<and> sp t lat lon alt = Inl e))"
proof (intro conjI impI allI)
  assume "\<forall>t. start \<le> t \<and> t \<le> end' \<longrightarrow> sp t lat lon alt = Inr (g t)"
  then have "\<And>t. start \<le> t \<Longrightarrow> t \<le> end' \<Longrightarrow> sp t lat lon alt = Inr (g t)" by simp
  then show "compute_solar_positions tzdb sp lat lon alt zone year
          = Inr (map (\<lambda>t. \<lparr>time = t, azimuth = sp_azimuth (g t),
                            apparent_elevation = sp_apparent_elevation (g t)\<rparr>) [start..end'])"
    by (rule compute_solar_positions_success [where tzdb = tzdb and zone = zone, OF assms])
next
  fix e
  assume f: "compute_solar_positions tzdb sp lat lon alt zone year = Inl e"
  have "get_solarposition sp [start..end'] lat lon alt = Inl e"
    using f assms
    by (cases "get_solarposition sp [start..end'] lat lon alt")
       (simp_all add: compute_solar_positions_def Timestamp_def date_range_def)
  from get_solarposition_Inl [OF this]
  show "\<exists>t. start \<le> t \<and> t \<le> end' \<and> sp t lat lon alt = Inl e"
    by auto
qed

theorem compute_solar_positions_any_location_witness:
  "tzdata ''America/New_York'' = Some America_New_York
   \<and> tz_localize America_New_York (ymd_minute 2024 1 1 0 0) = Inr 28401420
   \<and> tz_localize America_New_York (ymd_minute 2024 12 31 23 59) = Inr 28928459
   \<and> compute_solar_positions tzdata fixed_position 91 (- 200) (- 1000) ''America/New_York'' 2024
       = Inr (fixed_rows 28401420 28928459)
   \<and> compute_solar_positions tzdata failing_position 91 (- 200) (- 1000) ''America/New_York'' 2024
       = Inl (PositionError ''SPA failed'')
   \<and> (28401420 :: int) \<le> 28401421 \<and> (28401421 :: int) \<le> 28928459
   \<and> failing_position 28401421 91 (- 200) (- 1000) = Inl (PositionError ''SPA failed'')"
proof -
  have g: "\<forall>t. 28401420 \<le> t \<and> t \<le> 28928459 \<longrightarrow>
             fixed_position t 91 (- 200) (- 1000)
             = Inr \<lparr>sp_apparent_zenith = 0x4046800000000000, sp_zenith = 0x4046800000000000,
                    sp_apparent_elevation = 0x4046800000000000,
                    sp_elevation = 0x4046800000000000,
                    sp_azimuth = 0x4066800000000000, sp_equation_of_time = 0\<rparr>"
    by (simp add: fixed_position_def)
  have a: "compute_solar_positions tzdata fixed_position 91 (- 200) (- 1000)
             ''America/New_York'' 2024 = Inr (fixed_rows 28401420 28928459)"
    using compute_solar_positions_any_location
            [where tzdb = tzdata and zone = "''America/New_York''"
               and sp = fixed_position and lat = 91 and lon = "- 200" and alt = "- 1000"
               and g = "\<lambda>t. \<lparr>sp_apparent_zenith = 0x4046800000000000,
                    sp_zenith = 0x4046800000000000,
                    sp_apparent_elevation = 0x4046800000000000,
                    sp_elevation = 0x4046800000000000,
                    sp_azimuth = 0x4066800000000000, sp_equation_of_time = 0\<rparr>",
             OF tzdata_lookup(1) localized_values(1,2),
             THEN conjunct1, THEN mp, OF g]
    unfolding fixed_rows_def by (simp del: upto_rec_numeral)
  have f: "failing_position 28401421 91 (- 200) (- 1000) = Inl (PositionError ''SPA failed'')"
    by (simp add: failing_position_def)
  have b: "compute_solar_positions tzdata failing_position 91 (- 200) (- 1000)
             ''America/New_York'' 2024 = Inl (PositionError ''SPA failed'')"
  proof (rule compute_solar_positions_error
      [where g = "\<lambda>t. \<lparr>sp_apparent_zenith = 0x4046800000000000,
                    sp_zenith = 0x4046800000000000,
                    sp_apparent_elevation = 0x4046800000000000,
                    sp_elevation = 0x4046800000000000,
                    sp_azimuth = 0x4066800000000000, sp_equation_of_time = 0\<rparr>"
         and t = 28401421 and tzdb = tzdata and zone = "''America/New_York''"
         and sp = failing_position and lat = 91 and lon = "- 200" and alt = "- 1000"
         and e = "PositionError ''SPA failed''",
       OF tzdata_lookup(1) localized_values(1,2) _ _ f])
    show "(28401420 :: int) \<le> 28401421" "(28401421 :: int) \<le> 28928459" by simp_all
    fix u :: int
    assume "28401420 \<le> u" "u < 28401421"
    then show "failing_position u 91 (- 200) (- 1000)
               = Inr \<lparr>sp_apparent_zenith = 0x4046800000000000,
                    sp_zenith = 0x4046800000000000,
                    sp_apparent_elevation = 0x4046800000000000,
                    sp_elevation = 0x4046800000000000,
                    sp_azimuth = 0x4066800000000000, sp_equation_of_time = 0\<rparr>"
      by (simp add: failing_position_def fixed_position_def)
  qed
  show ?thesis
    by (intro conjI) (rule tzdata_lookup localized_values a b f | simp)+
qed

subsection \<open>Values that are not finite\<close>





subsection \<open>The run for a city and a year\<close>



lemma main_job_written:
  assumes tz: "tzdb (city_timezone info) = Some tz"
    and s: "tz_localize tz (ymd_minute year 1 1 0 0) = Inr start"
    and e: "tz_localize tz (ymd_minute year 12 31 23 59) = Inr end'"
    and y: "- 32768 \<le> year" "year \<le> 32767"
    and g: "\<And>t. start \<le> t \<Longrightarrow> t \<le> end' \<Longrightarrow>
           sp t (city_latitude info) (city_longitude info) (city_altitude info) = Inr (g t)"
    and mk: "makedirs (dirname path) True fs = (fs1, None)"
    and op: "open_wb path fs1 = Inr (fs2, fd)"
  obtains f where
    "read_file (fst (main_job Little tzdb sp info path year fs)) path = Some f"
    "fst (snd (main_job Little tzdb sp info path year fs))
     = (if int (nat (end' - start + 1)) \<noteq> (if isleap year then 366 else 365) * 1440
        then [ExpectedRowsButGot ((if isleap year then 366 else 365) * 1440)
                (nat (end' - start + 1))] else [])"
    "snd (snd (main_job Little tzdb sp info path year fs)) = Inr (nat (end' - start + 1))"
    "\<And>t. start \<le> t \<Longrightarrow> t \<le> end' \<Longrightarrow>
       le_word32 (take 4 (drop (16 + 8 * nat (t - start)) f)) = astype_float32 (sp_azimuth (g t))
       \<and> le_word32 (take 4 (drop (20 + 8 * nat (t - start)) f))
           = astype_float32 (sp_apparent_elevation (g t))"
proof -
  define df where "df = map (\<lambda>t. \<lparr>time = t, azimuth = sp_azimuth (g t),
                           apparent_elevation = sp_apparent_elevation (g t)\<rparr>) [start..end']"
  have c: "compute_solar_positions tzdb sp (city_latitude info) (city_longitude info)
          (city_altitude info) (city_timezone info) year = Inr df"
    unfolding df_def
    by (rule compute_solar_positions_success
          [where tzdb = tzdb and zone = "city_timezone info" and sp = sp and g = g,
           OF tz s e g])
  have l: "length df = nat (end' - start + 1)" by (simp add: df_def)
  have m: "main_job Little tzdb sp info path year fs = write_binary Little df path year fs"
    by (simp add: main_job_def c)
  show ?thesis
  proof (rule write_binary_file [OF y mk op, of Little df])
    fix f
    assume w: "write_binary Little df path year fs =
       (fs2\<lparr>fs_nodes := (fs_nodes fs2)(fd \<mapsto> RegularFile f)\<rparr>,
        if int (length df) \<noteq> (if isleap year then 366 else 365) * 1440
        then [ExpectedRowsButGot ((if isleap year then 366 else 365) * 1440) (length df)] else [],
        Inr (length df))"
      and rd: "read_file (fst (write_binary Little df path year fs)) path = Some f"
      and p: "drop 16 f = concat (map (\<lambda>r. float32_bytes Little (astype_float32 (azimuth r))
                            @ float32_bytes Little (astype_float32 (apparent_elevation r))) df)"
    have r: "le_word32 (take 4 (drop (16 + 8 * nat (t - start)) f))
               = astype_float32 (sp_azimuth (g t))
             \<and> le_word32 (take 4 (drop (20 + 8 * nat (t - start)) f))
               = astype_float32 (sp_apparent_elevation (g t))"
      if t: "start \<le> t" "t \<le> end'" for t
    proof -
      have i: "nat (t - start) < length df" using t unfolding l by simp
      have b: "start + int (nat (t - start)) \<le> end'" using t by simp
      have "df ! nat (t - start)
            = \<lparr>time = start + int (nat (t - start)),
                azimuth = sp_azimuth (g (start + int (nat (t - start)))),
                apparent_elevation
                  = sp_apparent_elevation (g (start + int (nat (t - start))))\<rparr>"
        unfolding df_def by (rule nth_map_upto [OF b])
      then have n: "df ! nat (t - start)
            = \<lparr>time = t, azimuth = sp_azimuth (g t),
                apparent_elevation = sp_apparent_elevation (g t)\<rparr>"
        using t by simp
      have a: "take 4 (drop (16 + 8 * nat (t - start)) f)
             = float32_bytes Little (astype_float32 (azimuth (df ! nat (t - start))))"
        by (rule record_at(2) [OF p _ _ i]) (rule length_float32_bytes)+
      have b: "take 4 (drop (20 + 8 * nat (t - start)) f)
             = float32_bytes Little (astype_float32 (apparent_elevation (df ! nat (t - start))))"
        by (rule record_at(3) [OF p _ _ i]) (rule length_float32_bytes)+
      show ?thesis unfolding a b n by (simp add: le_word32_float32_bytes)
    qed
    have rd': "read_file (fst (main_job Little tzdb sp info path year fs)) path = Some f"
      unfolding m by (rule rd)
    have pr: "fst (snd (main_job Little tzdb sp info path year fs))
     = (if int (nat (end' - start + 1)) \<noteq> (if isleap year then 366 else 365) * 1440
        then [ExpectedRowsButGot ((if isleap year then 366 else 365) * 1440)
                (nat (end' - start + 1))] else [])"
      unfolding m w l by simp
    have rt: "snd (snd (main_job Little tzdb sp info path year fs))
              = Inr (nat (end' - start + 1))"
      unfolding m w l by simp
    show ?thesis
      by (rule that [OF rd' pr rt r])
  qed
qed

lemma manhattan_fields:
  "city_latitude Manhattan = 40.7826" "city_longitude Manhattan = - 73.9656"
  "city_altitude Manhattan = 33" "city_timezone Manhattan = ''America/New_York''"
  by (simp_all add: Manhattan_def)

lemma manhattan_tz: "tzdata (city_timezone Manhattan) = Some America_New_York"
  by (simp add: manhattan_fields tzdata_lookup)




subsection \<open>Writing in place\<close>

lemma fixed_run_returns:
  "snd (snd (main_job Little tzdata fixed_position Manhattan ''Manhattan/sun_pos_2024.bin'' 2024
               work_dir)) = Inr 527040"
proof (rule main_job_written
    [where tzdb = tzdata and info = Manhattan and sp = fixed_position and year = 2024
       and path = "''Manhattan/sun_pos_2024.bin''" and fs = work_dir
       and g = "\<lambda>t. \<lparr>sp_apparent_zenith = 0x4046800000000000,
                     sp_zenith = 0x4046800000000000,
                     sp_apparent_elevation = 0x4046800000000000,
                     sp_elevation = 0x4046800000000000,
                     sp_azimuth = 0x4066800000000000, sp_equation_of_time = 0\<rparr>",
     OF manhattan_tz localized_values(1,2) _ _ _ mk_manhattan_2024 open_wb_work_dir(4)])
  show "- 32768 \<le> (2024 :: int)" "(2024 :: int) \<le> 32767" by simp_all
  show "fixed_position t (city_latitude Manhattan) (city_longitude Manhattan)
          (city_altitude Manhattan)
        = Inr \<lparr>sp_apparent_zenith = 0x4046800000000000,
                     sp_zenith = 0x4046800000000000,
                     sp_apparent_elevation = 0x4046800000000000,
                     sp_elevation = 0x4046800000000000,
                     sp_azimuth = 0x4066800000000000, sp_equation_of_time = 0\<rparr>" for t
    by (simp add: fixed_position_def)
next
  assume "snd (snd (main_job Little tzdata fixed_position Manhattan
                      ''Manhattan/sun_pos_2024.bin'' 2024 work_dir))
          = Inr (nat (28928459 - 28401420 + 1))"
  then show ?thesis by simp
qed

text \<open>
  Claim C8, as the spec states it, fails: \<open>write_binary\<close> has no temporary path and no
  rename, it opens the final path itself and writes into it. In the run for Manhattan and
  2024, which returns 527040, the \<open>with\<close> block runs in a file system where \<open>open\<close>
  has made the final path an empty file, so that a reader finds there a file that is not
  complete. And a call that fails inside the block leaves what it had written: with the
  year 40000 the call ends with \<open>struct.error\<close> and the final path holds a file of six
  bytes.
\<close>

theorem write_binary_leaves_partial_file:
  "snd (snd (main_job Little tzdata fixed_position Manhattan ''Manhattan/sun_pos_2024.bin'' 2024
               work_dir)) = Inr 527040
   \<and> makedirs (dirname ''Manhattan/sun_pos_2024.bin'') True work_dir
       = (work_dir\<lparr>fs_nodes := (fs_nodes work_dir)([''work'', ''Manhattan''] \<mapsto> Directory)\<rparr>,
          None)
   \<and> open_wb ''Manhattan/sun_pos_2024.bin''
         (work_dir\<lparr>fs_nodes := (fs_nodes work_dir)([''work'', ''Manhattan''] \<mapsto> Directory)\<rparr>)
       = Inr (work_dir\<lparr>fs_nodes := (fs_nodes work_dir)([''work'', ''Manhattan''] \<mapsto> Directory,
                 [''work'', ''Manhattan'', ''sun_pos_2024.bin''] \<mapsto> RegularFile [])\<rparr>,
              [''work'', ''Manhattan'', ''sun_pos_2024.bin''])
   \<and> read_file
         (work_dir\<lparr>fs_nodes := (fs_nodes work_dir)([''work'', ''Manhattan''] \<mapsto> Directory,
             [''work'', ''Manhattan'', ''sun_pos_2024.bin''] \<mapsto> RegularFile [])\<rparr>)
         ''Manhattan/sun_pos_2024.bin'' = Some []
   \<and> snd (snd (write_binary Little two_rows ''out/sun_pos_40000.bin'' 40000 work_dir))
       = Inl StructError
   \<and> read_file (fst (write_binary Little two_rows ''out/sun_pos_40000.bin'' 40000 work_dir))
        ''out/sun_pos_40000.bin'' = Some [0x53, 0x4C, 0x52, 0x44, 1, 0]"
proof -
  have o: "(40000 :: int) < - 32768 \<or> 32767 < (40000 :: int)" by simp
  note w = write_binary_out_of_range [OF o mk_out_40000 open_wb_work_dir(3), of Little two_rows]
  have e: "snd (snd (write_binary Little two_rows ''out/sun_pos_40000.bin'' 40000 work_dir))
           = Inl StructError"
    unfolding w by simp
  have "read_file (fst (write_binary Little two_rows ''out/sun_pos_40000.bin'' 40000 work_dir))
          ''out/sun_pos_40000.bin'' = Some (MAGIC @ [1, 0])"
    unfolding w fst_conv by (rule read_file_open(1) [OF open_wb_work_dir(3)])
  then have r: "read_file (fst (write_binary Little two_rows ''out/sun_pos_40000.bin'' 40000
                                  work_dir)) ''out/sun_pos_40000.bin''
                = Some [0x53, 0x4C, 0x52, 0x44, 1, 0]"
    by (simp add: MAGIC_def)
  show ?thesis
    by (intro conjI)
       (rule fixed_run_returns mk_manhattan_2024 open_wb_work_dir(4)
          read_file_open(2) [OF open_wb_work_dir(4)] e r)+
qed

text \<open>
  Claim C8, amended. \<open>write_binary\<close> writes in place, without a temporary path and a
  rename. Once \<open>os.makedirs\<close> has made the directory of the path, \<open>open\<close> creates the
  file at the final path or empties the one that is there, so that the final path holds an
  empty file when the \<open>with\<close> block begins. A call that returns (the year fits int16)
  leaves there the whole file: the magic, the header with the number of minutes of the
  year, and one record per row, 16 + 8 * count bytes. A call in which \<open>struct.pack\<close>
  raises (the year does not fit int16) leaves there the six bytes written before the
  failure. No other regular file is created or changed.
\<close>

theorem write_binary_in_place:
  assumes "makedirs (dirname path) True fs = (fs1, None)"
    and "open_wb path fs1 = Inr (fs2, fd)"
  shows "read_file fs2 path = Some []
       \<and> (- 32768 \<le> y \<and> y \<le> 32767 \<longrightarrow>
            (\<exists>f. read_file (fst (write_binary host df path y fs)) path = Some f
                \<and> snd (snd (write_binary host df path y fs)) = Inr (length df)
                \<and> take 4 f = MAGIC
                \<and> le_int32 (take 4 (drop 8 f)) = (if isleap y then 366 else 365) * 1440
                \<and> length f = 16 + 8 * length df))
       \<and> (y < - 32768 \<or> 32767 < y \<longrightarrow>
            read_file (fst (write_binary host df path y fs)) path = Some (MAGIC @ [1, 0])
            \<and> snd (snd (write_binary host df path y fs)) = Inl StructError)
       \<and> (\<forall>k b. k \<noteq> fd \<longrightarrow>
              (fs_nodes (fst (write_binary host df path y fs)) k = Some (RegularFile b))
              = (fs_nodes fs k = Some (RegularFile b)))"
proof (intro conjI impI allI)
  show "read_file fs2 path = Some []"
    by (rule read_file_open(2) [OF assms(2)])
next
  assume "- 32768 \<le> y \<and> y \<le> 32767"
  then have r1: "- 32768 \<le> y" and r2: "y \<le> 32767" by simp_all
  show "\<exists>f. read_file (fst (write_binary host df path y fs)) path = Some f
          \<and> snd (snd (write_binary host df path y fs)) = Inr (length df)
          \<and> take 4 f = MAGIC
          \<and> le_int32 (take 4 (drop 8 f)) = (if isleap y then 366 else 365) * 1440
          \<and> length f = 16 + 8 * length df"
  proof (rule write_binary_file [OF r1 r2 assms, of host df])
    fix f
    assume w: "write_binary host df path y fs =
       (fs2\<lparr>fs_nodes := (fs_nodes fs2)(fd \<mapsto> RegularFile f)\<rparr>,
        if int (length df) \<noteq> (if isleap y then 366 else 365) * 1440
        then [ExpectedRowsButGot ((if isleap y then 366 else 365) * 1440) (length df)] else [],
        Inr (length df))"
      and a: "read_file (fst (write_binary host df path y fs)) path = Some f"
      and m: "take 4 f = MAGIC"
      and c: "take 4 (drop 8 f) = [byte_at ((if isleap y then 366 else 365) * 1440) 0,
                           byte_at ((if isleap y then 366 else 365) * 1440) 1,
                           byte_at ((if isleap y then 366 else 365) * 1440) 2,
                           byte_at ((if isleap y then 366 else 365) * 1440) 3]"
      and l: "length f = 16 + 8 * length df"
    have n: "le_int32 (take 4 (drop 8 f)) = (if isleap y then 366 else 365) * 1440"
      unfolding c by (rule le_int32_pack) simp_all
    have b: "snd (snd (write_binary host df path y fs)) = Inr (length df)"
      unfolding w by simp
    show ?thesis
      by (intro exI [of _ f] conjI) (rule a b m n l)+
  qed
next
  assume o: "y < - 32768 \<or> 32767 < y"
  note w = write_binary_out_of_range [OF o assms, of host df]
  show "read_file (fst (write_binary host df path y fs)) path = Some (MAGIC @ [1, 0])"
    unfolding w fst_conv by (rule read_file_open(1) [OF assms(2)])
  show "snd (snd (write_binary host df path y fs)) = Inl StructError"
    unfolding w by simp
next
  fix k b
  assume k: "k \<noteq> fd"
  have f1: "fs1 = fst (makedirs (dirname path) True fs)"
    by (simp add: assms(1))
  have m: "(fs_nodes fs1 k = Some (RegularFile b)) = (fs_nodes fs k = Some (RegularFile b))"
    unfolding f1 by (rule makedirs_regular_files [THEN conjunct2])
  note o = open_wb_Inr(3) [OF assms(2)]
  have "\<exists>f. fst (write_binary host df path y fs)
            = fs2\<lparr>fs_nodes := (fs_nodes fs2)(fd \<mapsto> RegularFile f)\<rparr>"
  proof (cases "- 32768 \<le> y \<and> y \<le> 32767")
    case True
    then have r1: "- 32768 \<le> y" and r2: "y \<le> 32767" by simp_all
    show ?thesis
      unfolding write_binary_in_range [OF r1 r2 assms] fst_conv by (rule exI) (rule refl)
  next
    case False
    then have o: "y < - 32768 \<or> 32767 < y" by linarith
    show ?thesis
      unfolding write_binary_out_of_range [OF o assms] fst_conv by (rule exI) (rule refl)
  qed
  then obtain f where
    w: "fst (write_binary host df path y fs)
        = fs2\<lparr>fs_nodes := (fs_nodes fs2)(fd \<mapsto> RegularFile f)\<rparr>" ..
  have "fs_nodes (fst (write_binary host df path y fs)) k = fs_nodes fs1 k"
    unfolding w o using k by simp
  then show "(fs_nodes (fst (write_binary host df path y fs)) k = Some (RegularFile b))
             = (fs_nodes fs k = Some (RegularFile b))"
    using m by simp
qed

theorem write_binary_in_place_witness:
  "makedirs (dirname ''out/sun_pos_2024.bin'') True work_dir
       = (work_dir\<lparr>fs_nodes := (fs_nodes work_dir)([''work'', ''out''] \<mapsto> Directory)\<rparr>, None)
   \<and> open_wb ''out/sun_pos_2024.bin''
         (work_dir\<lparr>fs_nodes := (fs_nodes work_dir)([''work'', ''out''] \<mapsto> Directory)\<rparr>)
       = Inr (work_dir\<lparr>fs_nodes := (fs_nodes work_dir)([''work'', ''out''] \<mapsto> Directory,
                 [''work'', ''out'', ''sun_pos_2024.bin''] \<mapsto> RegularFile [])\<rparr>,
              [''work'', ''out'', ''sun_pos_2024.bin''])
   \<and> read_file
         (work_dir\<lparr>fs_nodes := (fs_nodes work_dir)([''work'', ''out''] \<mapsto> Directory,
             [''work'', ''out'', ''sun_pos_2024.bin''] \<mapsto> RegularFile [])\<rparr>)
         ''out/sun_pos_2024.bin'' = Some []
   \<and> (- 32768 \<le> (2024::int) \<and> (2024::int) \<le> 32767)
   \<and> (\<exists>f. read_file (fst (write_binary Little two_rows ''out/sun_pos_2024.bin'' 2024 work_dir))
              ''out/sun_pos_2024.bin'' = Some f
          \<and> snd (snd (write_binary Little two_rows ''out/sun_pos_2024.bin'' 2024 work_dir))
              = Inr 2
          \<and> length f = 32 \<and> le_int32 (take 4 (drop 8 f)) = 527040)
   \<and> makedirs (dirname ''out/sun_pos_40000.bin'') True work_dir
       = (work_dir\<lparr>fs_nodes := (fs_nodes work_dir)([''work'', ''out''] \<mapsto> Directory)\<rparr>, None)
   \<and> open_wb ''out/sun_pos_40000.bin''
         (work_dir\<lparr>fs_nodes := (fs_nodes work_dir)([''work'', ''out''] \<mapsto> Directory)\<rparr>)
       = Inr (work_dir\<lparr>fs_nodes := (fs_nodes work_dir)([''work'', ''out''] \<mapsto> Directory,
                 [''work'', ''out'', ''sun_pos_40000.bin''] \<mapsto> RegularFile [])\<rparr>,
              [''work'', ''out'', ''sun_pos_40000.bin''])
   \<and> ((40000::int) < - 32768 \<or> 32767 < (40000::int))
   \<and> read_file (fst (write_binary Little two_rows ''out/sun_pos_40000.bin'' 40000 work_dir))
        ''out/sun_pos_40000.bin'' = Some [0x53, 0x4C, 0x52, 0x44, 1, 0]
   \<and> [''work'', ''old.bin''] \<noteq> [''work'', ''out'', ''sun_pos_2024.bin'']
   \<and> fs_nodes work_dir [''work'', ''old.bin''] = Some (RegularFile [7])
   \<and> fs_nodes (fst (write_binary Little two_rows ''out/sun_pos_2024.bin'' 2024 work_dir))
        [''work'', ''old.bin''] = Some (RegularFile [7])"
proof -
  note t24 = write_binary_in_place [OF mk_out_2024 open_wb_work_dir(1), of 2024 Little two_rows]
  note t40 = write_binary_in_place [OF mk_out_40000 open_wb_work_dir(3), of 40000 Little two_rows]
  have y: "- 32768 \<le> (2024::int) \<and> (2024::int) \<le> 32767" by simp
  have o: "(40000::int) < - 32768 \<or> 32767 < (40000::int)" by simp
  note e = t24 [THEN conjunct1]
  have a: "\<exists>f. read_file (fst (write_binary Little two_rows ''out/sun_pos_2024.bin'' 2024
                               work_dir)) ''out/sun_pos_2024.bin'' = Some f
          \<and> snd (snd (write_binary Little two_rows ''out/sun_pos_2024.bin'' 2024 work_dir))
              = Inr 2
          \<and> length f = 32 \<and> le_int32 (take 4 (drop 8 f)) = 527040"
    using t24 [THEN conjunct2, THEN conjunct1, THEN mp, OF y]
    by (auto simp add: length_two_rows isleap_def)
  have b: "read_file (fst (write_binary Little two_rows ''out/sun_pos_40000.bin'' 40000
                             work_dir)) ''out/sun_pos_40000.bin''
           = Some [0x53, 0x4C, 0x52, 0x44, 1, 0]"
    using t40 [THEN conjunct2, THEN conjunct2, THEN conjunct1, THEN mp, OF o, THEN conjunct1]
    by (simp add: MAGIC_def)
  have ne: "[''work'', ''old.bin''] \<noteq> [''work'', ''out'', ''sun_pos_2024.bin'']" by simp
  have old: "fs_nodes work_dir [''work'', ''old.bin''] = Some (RegularFile [7])"
    by (simp add: work_dir_def)
  have kept: "fs_nodes (fst (write_binary Little two_rows ''out/sun_pos_2024.bin'' 2024
                               work_dir)) [''work'', ''old.bin''] = Some (RegularFile [7])"
    using t24 [THEN conjunct2, THEN conjunct2, THEN conjunct2, THEN spec, THEN spec, THEN mp,
               OF ne, of "[7]"] old by simp
  show ?thesis
    by (intro conjI)
       (rule mk_out_2024 open_wb_work_dir(1) e y [THEN conjunct1] y [THEN conjunct2] a
          mk_out_40000 open_wb_work_dir(3) o b ne old kept)+
qed

end
